theory Spec2Isabelle
  imports Main "HOL-Library.AList" "HOL-Library.Sublist"
begin

section \<open>Thrown values and outcomes\<close>

text \<open>
  Modelled from the spec: the errors module is not part of the sources at hand. Its
  classes are those of the taxonomy of the error handling design, every framework
  error being a RuntimeError and every RuntimeError an Error. User-defined subclasses
  are added: \<open>UserError n p\<close> is \<^verbatim>\<open>class n extends p\<close> (the assertion error of
  a third-party library is \<open>UserError ''AssertionError'' Error\<close>).
\<close>

datatype error_class =
    Error
  | RuntimeError
  | AssertionError
  | ConfigurationError
  | ImplementationPendingError
  | TestCompromisedError
  | LogicError
  | TypeError
  | UserError string error_class

fun class_name :: "error_class \<Rightarrow> string" where
  "class_name Error = ''Error''"
| "class_name RuntimeError = ''RuntimeError''"
| "class_name AssertionError = ''AssertionError''"
| "class_name ConfigurationError = ''ConfigurationError''"
| "class_name ImplementationPendingError = ''ImplementationPendingError''"
| "class_name TestCompromisedError = ''TestCompromisedError''"
| "class_name LogicError = ''LogicError''"
| "class_name TypeError = ''TypeError''"
| "class_name (UserError n p) = n"

text \<open>\<open>subclass_of c d\<close>: the prototype chain of class \<open>c\<close> reaches class \<open>d\<close>.\<close>

fun subclass_of :: "error_class \<Rightarrow> error_class \<Rightarrow> bool" where
  "subclass_of (UserError n p) d = (UserError n p = d \<or> subclass_of p d)"
| "subclass_of Error d = (d = Error)"
| "subclass_of RuntimeError d = (d = RuntimeError \<or> d = Error)"
| "subclass_of TypeError d = (d = TypeError \<or> d = Error)"
| "subclass_of c d = (d = c \<or> d = RuntimeError \<or> d = Error)"

text \<open>
  A thrown value: an object created by an error class, with its message and its cause;
  an error class itself, thrown without being instantiated (a function); or any other
  value (a string, a number, undefined, null, an object that is no Error, another
  function), given by what \<^verbatim>\<open>typeof\<close> says of it and its constructor's name.
  \<open>instanceof\<close> follows the chain of superclasses; nothing but an Error object is
  an instance of an error class. \<open>identical v c\<close> is \<^verbatim>\<open>v === c\<close> for a class
  \<open>c\<close>. The constructor of a class is \<^verbatim>\<open>Function\<close>.
\<close>

datatype js_type =
    TypeString
  | TypeNumber
  | TypeBoolean
  | TypeObject
  | TypeFunction
  | TypeUndefined
  | TypeSymbol
  | TypeBigint

datatype thrown =
    ErrorObject error_class string "thrown option"
  | ErrorClass error_class
  | NonError js_type string

fun typeof :: "thrown \<Rightarrow> js_type" where
  "typeof (ErrorObject c m cause) = TypeObject"
| "typeof (ErrorClass c) = TypeFunction"
| "typeof (NonError ty n) = ty"

fun instanceof :: "thrown \<Rightarrow> error_class \<Rightarrow> bool" where
  "instanceof (ErrorObject c m cause) d = subclass_of c d"
| "instanceof (ErrorClass c) d = False"
| "instanceof (NonError ty n) d = False"

fun identical :: "thrown \<Rightarrow> error_class \<Rightarrow> bool" where
  "identical (ErrorClass c) d = (c = d)"
| "identical (ErrorObject c m cause) d = False"
| "identical (NonError ty n) d = False"

fun constructor_name :: "thrown \<Rightarrow> string" where
  "constructor_name (ErrorObject c m cause) = class_name c"
| "constructor_name (ErrorClass c) = ''Function''"
| "constructor_name (NonError ty n) = n"

datatype outcome =
    ExecutionSuccessful
  | ImplementationPending thrown
  | ExecutionCompromised thrown
  | ExecutionFailedWithAssertionError thrown
  | ExecutionFailedWithError thrown

subsection \<open>The pattern matcher of tiny-types\<close>

text \<open>
  \<^verbatim>\<open>match(value)\<close> chooses a matcher by \<^verbatim>\<open>typeof value\<close>: one for strings,
  one for numbers, one for booleans, the object matcher for objects (null included),
  and the identity matcher for everything else (a function, undefined, a symbol). It
  starts with no rule. \<^verbatim>\<open>.when(Class, f)\<close> adds a rule after the rules already
  there: in the object matcher a class as pattern gives the rule
  "value instanceof Class, then f"; in every other matcher it gives the rule
  "value === Class, then f". \<^verbatim>\<open>.else(f)\<close> runs the first rule that matches, or
  \<open>f\<close> when none does.
\<close>

datatype matcher_kind =
    StringMatcher
  | NumberMatcher
  | BooleanMatcher
  | ObjectMatcher
  | IdentityMatcher

datatype rule_kind =
    MatchesObjectsWithCommonAncestor
  | MatchesIdentical

datatype 'r matcher =
  Matcher matcher_kind thrown "(rule_kind \<times> error_class \<times> (thrown \<Rightarrow> 'r)) list"

definition match :: "thrown \<Rightarrow> 'r matcher" where
  "match v =
     Matcher
       (case typeof v of
          TypeString \<Rightarrow> StringMatcher
        | TypeNumber \<Rightarrow> NumberMatcher
        | TypeBoolean \<Rightarrow> BooleanMatcher
        | TypeObject \<Rightarrow> ObjectMatcher
        | _ \<Rightarrow> IdentityMatcher)
       v []"

fun rule_for :: "matcher_kind \<Rightarrow> rule_kind" where
  "rule_for ObjectMatcher = MatchesObjectsWithCommonAncestor"
| "rule_for StringMatcher = MatchesIdentical"
| "rule_for NumberMatcher = MatchesIdentical"
| "rule_for BooleanMatcher = MatchesIdentical"
| "rule_for IdentityMatcher = MatchesIdentical"

fun rule_matches :: "rule_kind \<Rightarrow> error_class \<Rightarrow> thrown \<Rightarrow> bool" where
  "rule_matches MatchesObjectsWithCommonAncestor pattern v = instanceof v pattern"
| "rule_matches MatchesIdentical pattern v = identical v pattern"

fun match_when :: "'r matcher \<Rightarrow> error_class \<Rightarrow> (thrown \<Rightarrow> 'r) \<Rightarrow> 'r matcher" where
  "match_when (Matcher kind v rules) pattern transformation =
     Matcher kind v (rules @ [(rule_for kind, pattern, transformation)])"

fun match_else :: "'r matcher \<Rightarrow> (thrown \<Rightarrow> 'r) \<Rightarrow> 'r" where
  "match_else (Matcher kind v rules) transformation =
     (case find (\<lambda>rule. rule_matches (fst rule) (fst (snd rule)) v) rules of
        Some rule \<Rightarrow> snd (snd rule) v
      | None \<Rightarrow> transformation v)"

text \<open>\<^verbatim>\<open>/AssertionError/.test(s)\<close>: the pattern occurs somewhere in \<open>s\<close>.\<close>

definition regexp_test :: "string \<Rightarrow> string \<Rightarrow> bool" where
  "regexp_test pattern s = sublist pattern s"

subsection \<open>OutcomeMatcher.outcomeFor\<close>

definition outcomeFor :: "thrown \<Rightarrow> outcome" where
  "outcomeFor error =
     match_else
       (match_when
         (match_when
           (match_when
             (match_when (match error)
               ImplementationPendingError (\<lambda>_. ImplementationPending error))
             TestCompromisedError (\<lambda>_. ExecutionCompromised error))
           AssertionError (\<lambda>_. ExecutionFailedWithAssertionError error))
         Error (\<lambda>_.
           if regexp_test ''AssertionError'' (constructor_name error)
           then ExecutionFailedWithAssertionError error
           else ExecutionFailedWithError error))
       (\<lambda>_. ExecutionFailedWithError error)"

text \<open>
  The classification as the specification words it: five tests in the order of their
  priority, the first that holds gives the outcome. \<open>outcome_as_claimed\<close> reads
  "is a" as "is an instance of"; \<open>outcome_by_priority\<close> reads it as "is an instance
  of, or is the class itself".
\<close>

definition outcome_as_claimed :: "thrown \<Rightarrow> outcome" where
  "outcome_as_claimed e =
     (if instanceof e ImplementationPendingError then ImplementationPending e
      else if instanceof e TestCompromisedError then ExecutionCompromised e
      else if instanceof e AssertionError then ExecutionFailedWithAssertionError e
      else if instanceof e Error \<and> sublist ''AssertionError'' (constructor_name e)
        then ExecutionFailedWithAssertionError e
      else ExecutionFailedWithError e)"

definition is_a :: "thrown \<Rightarrow> error_class \<Rightarrow> bool" where
  "is_a e c = (instanceof e c \<or> e = ErrorClass c)"

definition outcome_by_priority :: "thrown \<Rightarrow> outcome" where
  "outcome_by_priority e =
     (if is_a e ImplementationPendingError then ImplementationPending e
      else if is_a e TestCompromisedError then ExecutionCompromised e
      else if is_a e AssertionError then ExecutionFailedWithAssertionError e
      else if instanceof e Error \<and> sublist ''AssertionError'' (constructor_name e)
        then ExecutionFailedWithAssertionError e
      else ExecutionFailedWithError e)"


section \<open>Strings of the host language\<close>

text \<open>
  \<^verbatim>\<open>str.replace(searchValue, replaceValue)\<close> with two strings: only the first
  occurrence of \<open>searchValue\<close> is replaced, and the replacement is not taken
  literally: \<^verbatim>\<open>$$\<close> stands for a dollar sign, \<^verbatim>\<open>$&\<close> for the matched text,
  a dollar sign and a backtick for the text before the match, a dollar sign and a
  single quote for the text after it. Any other dollar sign stands for itself (a string
  pattern has no capture group).
\<close>

fun split_at_first :: "string \<Rightarrow> string \<Rightarrow> (string \<times> string) option" where
  "split_at_first pat [] = (if pat = [] then Some ([], []) else None)"
| "split_at_first pat (c # cs) =
     (if prefix pat (c # cs) then Some ([], drop (length pat) (c # cs))
      else map_option (\<lambda>(before, after). (c # before, after)) (split_at_first pat cs))"

fun getSubstitution :: "string \<Rightarrow> string \<Rightarrow> string \<Rightarrow> string \<Rightarrow> string" where
  "getSubstitution matched before after [] = []"
| "getSubstitution matched before after [c] = [c]"
| "getSubstitution matched before after (c # d # r) =
     (if c = CHR ''$'' \<and> d = CHR ''$'' then CHR ''$'' # getSubstitution matched before after r
      else if c = CHR ''$'' \<and> d = CHR ''&'' then matched @ getSubstitution matched before after r
      else if c = CHR ''$'' \<and> d = CHR 0x60 then before @ getSubstitution matched before after r
      else if c = CHR ''$'' \<and> d = CHR 0x27 then after @ getSubstitution matched before after r
      else c # getSubstitution matched before after (d # r))"

definition replace :: "string \<Rightarrow> string \<Rightarrow> string \<Rightarrow> string" where
  "replace str searchValue replaceValue =
     (case split_at_first searchValue str of
        None \<Rightarrow> str
      | Some (before, after) \<Rightarrow>
          before @ getSubstitution searchValue before after replaceValue @ after)"

text \<open>
  \<^verbatim>\<open>array.join(separator)\<close> over values that are strings or undefined (\<open>None\<close>):
  an undefined element is joined as the empty string. In a template literal it is
  printed as \<^verbatim>\<open>undefined\<close>.
\<close>

fun join :: "string \<Rightarrow> string option list \<Rightarrow> string" where
  "join separator [] = []"
| "join separator [x] = (case x of None \<Rightarrow> [] | Some s \<Rightarrow> s)"
| "join separator (x # y # ys) =
     (case x of None \<Rightarrow> [] | Some s \<Rightarrow> s) @ separator @ join separator (y # ys)"

fun interpolated :: "string option \<Rightarrow> string" where
  "interpolated None = ''undefined''"
| "interpolated (Some s) = s"

section \<open>Classes of abilities\<close>

text \<open>
  The constructors an ability can have, with the chain that
  \<^verbatim>\<open>Object.getPrototypeOf\<close> walks: \<open>Class i n p\<close> is the class object number \<open>i\<close>,
  named \<open>n\<close>, declared \<^verbatim>\<open>class n extends p\<close> (a class that extends nothing has
  \<open>FunctionPrototype\<close> as \<open>p\<close>); \<open>Ability\<close> is the abstract root, whose prototype is
  \<^verbatim>\<open>Function.prototype\<close>, whose prototype is \<^verbatim>\<open>Object.prototype\<close>, whose prototype
  is null.
\<close>

datatype js_class =
    ObjectPrototype
  | FunctionPrototype
  | Ability
  | Class nat string js_class

fun getPrototypeOf :: "js_class \<Rightarrow> js_class option" where
  "getPrototypeOf ObjectPrototype = None"
| "getPrototypeOf FunctionPrototype = Some ObjectPrototype"
| "getPrototypeOf Ability = Some FunctionPrototype"
| "getPrototypeOf (Class i n p) = Some p"

text \<open>The \<^verbatim>\<open>name\<close> property: undefined on \<^verbatim>\<open>Object.prototype\<close>.\<close>

fun type_name :: "js_class \<Rightarrow> string option" where
  "type_name ObjectPrototype = None"
| "type_name FunctionPrototype = Some []"
| "type_name Ability = Some ''Ability''"
| "type_name (Class i n p) = Some n"

fun chain_length :: "js_class \<Rightarrow> nat" where
  "chain_length ObjectPrototype = 0"
| "chain_length FunctionPrototype = 1"
| "chain_length Ability = 2"
| "chain_length (Class i n p) = Suc (chain_length p)"

lemma getPrototypeOf_shorter:
  "getPrototypeOf t = Some p \<Longrightarrow> chain_length p < chain_length t"
  by (cases t) auto

function mostGenericTypeOf :: "js_class \<Rightarrow> js_class" where
  "mostGenericTypeOf abilityType =
     (case getPrototypeOf abilityType of
        None \<Rightarrow> abilityType
      | Some parentType \<Rightarrow>
          if parentType = Ability then abilityType else mostGenericTypeOf parentType)"
  by pat_completeness auto
termination
  by (relation "measure chain_length") (auto simp: getPrototypeOf_shorter)

declare mostGenericTypeOf.simps [simp del]

text \<open>\<^verbatim>\<open>x instanceof Ability\<close>, for an object \<open>x\<close> created by the class \<open>c\<close>.\<close>

fun extends_Ability :: "js_class \<Rightarrow> bool" where
  "extends_Ability (Class i n p) = extends_Ability p"
| "extends_Ability Ability = True"
| "extends_Ability FunctionPrototype = False"
| "extends_Ability ObjectPrototype = False"

text \<open>\<open>subtype_of b a\<close>: class \<open>b\<close> is \<open>a\<close> or extends it, directly or not.\<close>

fun subtype_of :: "js_class \<Rightarrow> js_class \<Rightarrow> bool" where
  "subtype_of (Class i n p) a = (Class i n p = a \<or> subtype_of p a)"
| "subtype_of Ability a = (a = Ability \<or> a = FunctionPrototype \<or> a = ObjectPrototype)"
| "subtype_of FunctionPrototype a = (a = FunctionPrototype \<or> a = ObjectPrototype)"
| "subtype_of ObjectPrototype a = (a = ObjectPrototype)"

section \<open>Events, the stage and suspending computations\<close>

text \<open>
  Modelled from the spec: the model and the events modules are not part of the sources
  at hand. Their values are the immutable records of the data model, with the fields
  that the tracker gives to their constructors; a correlation id is an opaque token.
\<close>

datatype correlation_id = CorrelationId nat
datatype timestamp = Timestamp nat
datatype name_t = Name string
datatype file_system_location = FileSystemLocation string nat nat
datatype activity_details = ActivityDetails name_t file_system_location

datatype domain_event =
    TaskStarts correlation_id correlation_id activity_details timestamp
  | TaskFinished correlation_id correlation_id activity_details outcome timestamp
  | InteractionStarts correlation_id correlation_id activity_details timestamp
  | InteractionFinished correlation_id correlation_id activity_details outcome timestamp

text \<open>
  An ability: the class that created it and the optional methods of the Initialisable
  and Discardable shapes (\<open>None\<close>: the property is not a function). The methods work
  on the external system \<open>'x\<close> (a browser, an API client and the ability's own
  state) and settle with a value or a thrown one.
\<close>

record 'x ability =
  ability_class :: js_class
  discard :: "('x \<Rightarrow> (thrown + unit) \<times> 'x) option"
  initialise :: "('x \<Rightarrow> (thrown + unit) \<times> 'x) option"
  isInitialised :: "('x \<Rightarrow> bool) option"

text \<open>
  Modelled from the spec: the Stage is not part of the sources at hand. Its state is
  the current scene, the current activity, the number of correlation ids minted so far
  and the clock; what it sends to the crew members is what a computation emits.
\<close>

record 'x world =
  currentScene :: correlation_id
  currentActivity :: "(correlation_id \<times> activity_details) option"
  minted :: nat
  clock :: timestamp
  system :: 'x

text \<open>
  What a computation lets the outside observe, in order: an event announced to the
  crew, a wait for the stage's next cue, and a call of a method of an ability.
\<close>

datatype 'x observed =
    Announced domain_event
  | WaitedForNextCue
  | Called string "'x ability"

text \<open>
  A promise chain is run as one sequential computation: from a world it settles with
  a value (\<open>Inr\<close>) or a thrown one (\<open>Inl\<close>), a new world, and what it emitted.
\<close>

type_synonym ('x, 'a) promise = "'x world \<Rightarrow> (thrown + 'a) \<times> 'x world \<times> 'x observed list"

definition promise_resolve :: "'a \<Rightarrow> ('x, 'a) promise" where
  "promise_resolve v = (\<lambda>w. (Inr v, w, []))"

definition promise_reject :: "thrown \<Rightarrow> ('x, 'a) promise" where
  "promise_reject e = (\<lambda>w. (Inl e, w, []))"

definition promise_then :: "('x, 'a) promise \<Rightarrow> ('a \<Rightarrow> ('x, 'b) promise) \<Rightarrow> ('x, 'b) promise" where
  "promise_then previous onFulfilled = (\<lambda>w.
     case previous w of
       (Inl e, w1, t1) \<Rightarrow> (Inl e, w1, t1)
     | (Inr v, w1, t1) \<Rightarrow>
         (case onFulfilled v w1 of (r, w2, t2) \<Rightarrow> (r, w2, t1 @ t2)))"

definition promise_catch :: "('x, 'a) promise \<Rightarrow> (thrown \<Rightarrow> ('x, 'a) promise) \<Rightarrow> ('x, 'a) promise" where
  "promise_catch previous onRejected = (\<lambda>w.
     case previous w of
       (Inl e, w1, t1) \<Rightarrow>
         (case onRejected e w1 of (r, w2, t2) \<Rightarrow> (r, w2, t1 @ t2))
     | (Inr v, w1, t1) \<Rightarrow> (Inr v, w1, t1))"

subsection \<open>The stage\<close>

text \<open>
  Modelled from the spec: \<open>currentSceneId\<close> reads the current scene,
  \<open>assignNewActivityId\<close> mints an identifier never used before and makes the activity
  current, \<open>currentTime\<close> reads the clock, \<open>announce\<close> forwards the event to the crew
  and \<open>waitForNextCue\<close> is a suspension point that settles.
\<close>

definition currentSceneId :: "'x world \<Rightarrow> correlation_id" where
  "currentSceneId w = currentScene w"

definition assignNewActivityId :: "activity_details \<Rightarrow> 'x world \<Rightarrow> correlation_id \<times> 'x world" where
  "assignNewActivityId details w =
     (CorrelationId (minted w),
      w\<lparr>currentActivity := Some (CorrelationId (minted w), details), minted := Suc (minted w)\<rparr>)"

definition currentTime :: "'x world \<Rightarrow> timestamp" where
  "currentTime w = clock w"

definition announce :: "domain_event \<Rightarrow> ('x, unit) promise" where
  "announce event = (\<lambda>w. (Inr (), w, [Announced event]))"

definition waitForNextCue :: "('x, unit) promise" where
  "waitForNextCue = (\<lambda>w. (Inr (), w, [WaitedForNextCue]))"

section \<open>Actors and activities\<close>

record 'x actor =
  name :: string
  abilities :: "(js_class \<times> 'x ability) list"

text \<open>
  An activity: its string form (\<^verbatim>\<open>toString()\<close>), the name of its class
  (\<^verbatim>\<open>constructor.name\<close>), whether it is an Interaction, where it was instantiated,
  and what performing it as an actor does. The string form and the location are values:
  reading them, as the constructor of TrackedActivity does for every activity before
  the chain starts, has no effect.
\<close>

record 'x activity =
  toString :: string
  constructor_name_of :: string
  isInteraction :: bool
  instantiationLocation :: file_system_location
  performAs :: "'x actor \<Rightarrow> ('x, unit) promise"

subsection \<open>ActivityDescriber\<close>

definition includeActorName :: "string \<Rightarrow> 'x actor \<Rightarrow> string" where
  "includeActorName template actor = replace template ''#actor'' (name actor)"

definition describe :: "'x activity \<Rightarrow> 'x actor \<Rightarrow> name_t" where
  "describe activity actor =
     (let template =
        (if toString activity = ''[object Object]''
         then ''#actor performs '' @ constructor_name_of activity
         else toString activity)
      in Name (includeActorName template actor))"

subsection \<open>TrackedActivity\<close>

datatype 'x tracked_activity = TrackedActivity "'x activity"

fun tracked_performAs :: "'x tracked_activity \<Rightarrow> 'x actor \<Rightarrow> ('x, unit) promise" where
  "tracked_performAs (TrackedActivity activity) actor = (\<lambda>w.
     let sceneId = currentSceneId w;
         details = ActivityDetails (describe activity actor) (instantiationLocation activity);
         (activityId, w1) = assignNewActivityId details w;
         (activityStarts, activityFinished) =
           (if isInteraction activity then (InteractionStarts, InteractionFinished)
            else (TaskStarts, TaskFinished))
     in promise_catch
          (promise_then
            (promise_then
              (promise_then (promise_resolve ())
                (\<lambda>_ w'. announce (activityStarts sceneId activityId details (currentTime w')) w'))
              (\<lambda>_. performAs activity actor))
            (\<lambda>_ w'. announce
               (activityFinished sceneId activityId details ExecutionSuccessful (currentTime w')) w'))
          (\<lambda>error w'.
             promise_then
               (announce (activityFinished sceneId activityId details (outcomeFor error) (currentTime w')))
               (\<lambda>_. promise_reject error) w')
          w1)"

subsection \<open>Actor: the ability registry\<close>

definition findAbilityTo :: "'x actor \<Rightarrow> js_class \<Rightarrow> 'x ability option" where
  "findAbilityTo actor doSomething =
     (let abilityType = mostGenericTypeOf doSomething
      in map_of (abilities actor) abilityType)"

definition abilityTo :: "'x actor \<Rightarrow> js_class \<Rightarrow> thrown + 'x ability" where
  "abilityTo actor abilityType =
     (case findAbilityTo actor abilityType of
        None \<Rightarrow>
          if length (abilities actor) > 0
          then Inl (ErrorObject ConfigurationError
                 (name actor @ '' can '' @ join '', '' (map type_name (map fst (abilities actor)))
                    @ ''. '' @
                  ''They can't, however, '' @ interpolated (type_name abilityType) @ '' yet. '' @
                  ''Did you give them the ability to do so?'') None)
          else Inl (ErrorObject ConfigurationError
                 (name actor @ '' can't '' @ interpolated (type_name abilityType) @ '' yet. '' @
                  ''Did you give them the ability to do so?'') None)
      | Some found \<Rightarrow> Inr found)"

text \<open>
  The map of abilities is an association list in the order of insertion:
  \<^verbatim>\<open>Map.set\<close> keeps the place of a key the map already has and puts a new key
  last, as \<open>AList.update\<close> does, and \<^verbatim>\<open>Map.get\<close> is \<open>map_of\<close>. The helper that
  prints the rejected value in the message, \<open>typeOf\<close>, is not part of the sources at
  hand and is a parameter. \<open>whoCan\<close> stops at the first ability that is rejected; the
  abilities acquired before it stay with the actor in the source, and the thrown value
  is all that the model returns then.
\<close>

definition acquireAbility ::
  "('x ability \<Rightarrow> string) \<Rightarrow> 'x actor \<Rightarrow> 'x ability \<Rightarrow> thrown + 'x actor" where
  "acquireAbility typeOf actor ability =
     (if \<not> extends_Ability (ability_class ability)
      then Inl (ErrorObject ConfigurationError
             (''Custom abilities must extend Ability from '@serenity-js/core'. Received ''
                @ typeOf ability) None)
      else
        let abilityType = mostGenericTypeOf (ability_class ability)
        in Inr (actor\<lparr>abilities := AList.update abilityType ability (abilities actor)\<rparr>))"

fun whoCan :: "('x ability \<Rightarrow> string) \<Rightarrow> 'x actor \<Rightarrow> 'x ability list \<Rightarrow> thrown + 'x actor" where
  "whoCan typeOf actor [] = Inr actor"
| "whoCan typeOf actor (ability # rest) =
     (case acquireAbility typeOf actor ability of
        Inl e \<Rightarrow> Inl e
      | Inr actor' \<Rightarrow> whoCan typeOf actor' rest)"

text \<open>\<^verbatim>\<open>typeof(ability[methodName]) === 'function'\<close>, for the methods the actor asks for.\<close>

definition has_method :: "'x ability \<Rightarrow> string \<Rightarrow> bool" where
  "has_method ability methodName =
     (if methodName = ''discard'' then discard ability \<noteq> None
      else if methodName = ''initialise'' then initialise ability \<noteq> None
      else if methodName = ''isInitialised'' then isInitialised ability \<noteq> None
      else False)"

definition findAbilitiesOfType :: "string list \<Rightarrow> 'x actor \<Rightarrow> 'x ability list" where
  "findAbilitiesOfType methodNames actor =
     filter (\<lambda>ability. list_all (\<lambda>methodName. has_method ability methodName) methodNames)
       (map snd (abilities actor))"

text \<open>
  Calling a method of an ability: the call is observed, the method works on the
  external system. Calling a property that is not a function throws a TypeError.
\<close>

definition call_method ::
  "string \<Rightarrow> ('x ability \<Rightarrow> ('x \<Rightarrow> (thrown + unit) \<times> 'x) option) \<Rightarrow> 'x ability \<Rightarrow> ('x, unit) promise" where
  "call_method methodName method ability = (\<lambda>w.
     case method ability of
       None \<Rightarrow> (Inl (ErrorObject TypeError (methodName @ '' is not a function'') None), w, [])
     | Some f \<Rightarrow>
         (case f (system w) of (r, x) \<Rightarrow> (r, w\<lparr>system := x\<rparr>, [Called methodName ability])))"

text \<open>
  \<^verbatim>\<open>ability.isInitialised()\<close> reads the external system. It is only called on
  abilities that \<open>findAbilitiesOfType\<close> kept, which have the method; the answer for an
  ability without it is never used.
\<close>

definition call_isInitialised :: "'x ability \<Rightarrow> 'x world \<Rightarrow> bool" where
  "call_isInitialised ability w =
     (case isInitialised ability of None \<Rightarrow> True | Some f \<Rightarrow> f (system w))"

subsection \<open>Actor: initialising abilities, performing activities, dismissal\<close>

text \<open>
  \<^verbatim>\<open>reduce\<close> is \<open>foldl\<close>. The abilities to initialise are chosen when
  \<open>initialiseAbilities\<close> is called, before any of them is initialised: the filter on
  \<open>isInitialised\<close> reads the world the chain starts from.
\<close>

definition initialiseAbilities :: "'x actor \<Rightarrow> ('x, unit) promise" where
  "initialiseAbilities actor = (\<lambda>w.
     foldl
       (\<lambda>previous ability.
          promise_catch
            (promise_then previous (\<lambda>_. call_method ''initialise'' initialise ability))
            (\<lambda>error. promise_reject
               (ErrorObject TestCompromisedError
                  (name actor @ '' couldn't initialise the ability to ''
                     @ interpolated (type_name (ability_class ability)))
                  (Some error))))
       (promise_resolve ())
       (filter (\<lambda>ability. \<not> call_isInitialised ability w)
          (findAbilitiesOfType [''initialise'', ''isInitialised''] actor))
       w)"

definition attemptsTo :: "'x actor \<Rightarrow> 'x activity list \<Rightarrow> ('x, unit) promise" where
  "attemptsTo actor activities =
     foldl
       (\<lambda>previous current.
          promise_then
            (promise_then previous (\<lambda>_. waitForNextCue))
            (\<lambda>_. tracked_performAs current actor))
       (initialiseAbilities actor)
       (map (\<lambda>activity. TrackedActivity activity) activities)"


subsection \<open>Actor: answering\<close>

text \<open>
  An Answerable, by what \<open>answer\<close> asks of it: undefined, null, a value that exposes
  \<open>answeredBy\<close> (a Question) or one that does not, each with whether \<^verbatim>\<open>then\<close> is a
  property of its own and whether it is a promise of the host language (whose
  \<^verbatim>\<open>then\<close> is inherited). A Question is answered by a function of the actor,
  and a Question can only be nested in another finitely many times.
\<close>

datatype ('x, 'a) answerable =
    Undefined
  | Null
  | Plain bool bool 'a
  | Question bool bool "'x actor \<Rightarrow> ('x, 'a) answerable"

text \<open>What a call returns: the very object it was given, or a new promise resolved with it.\<close>

datatype ('x, 'a) returned =
    Returned "('x, 'a) answerable"
  | Resolved "('x, 'a) answerable"

fun isDefined :: "('x, 'a) answerable \<Rightarrow> bool" where
  "isDefined Undefined = False"
| "isDefined Null = False"
| "isDefined (Plain ownThen native v) = True"
| "isDefined (Question ownThen native q) = True"

text \<open>\<^verbatim>\<open>Object.prototype.hasOwnProperty.call(v, 'then')\<close>.\<close>

fun isAPromise :: "('x, 'a) answerable \<Rightarrow> bool" where
  "isAPromise (Plain ownThen native v) = ownThen"
| "isAPromise (Question ownThen native q) = ownThen"
| "isAPromise Undefined = False"
| "isAPromise Null = False"

fun isNativePromise :: "('x, 'a) answerable \<Rightarrow> bool" where
  "isNativePromise (Plain ownThen native v) = native"
| "isNativePromise (Question ownThen native q) = native"
| "isNativePromise Undefined = False"
| "isNativePromise Null = False"

text \<open>
  Modelled from the spec: \<open>Question.isAQuestion\<close> is not part of the sources at hand;
  a Question is an object exposing \<open>answeredBy\<close>.
\<close>

fun isAQuestion :: "('x, 'a) answerable \<Rightarrow> bool" where
  "isAQuestion (Question ownThen native q) = True"
| "isAQuestion (Plain ownThen native v) = False"
| "isAQuestion Undefined = False"
| "isAQuestion Null = False"

text \<open>\<^verbatim>\<open>Promise.resolve(v)\<close> is \<open>v\<close> itself when \<open>v\<close> is a promise of the host language.\<close>

definition Promise_resolve :: "('x, 'a) answerable \<Rightarrow> ('x, 'a) returned" where
  "Promise_resolve v = (if isNativePromise v then Returned v else Resolved v)"

primrec answer :: "'x actor \<Rightarrow> ('x, 'a) answerable \<Rightarrow> ('x, 'a) returned" where
  "answer this Undefined = Promise_resolve Undefined"
| "answer this Null = Promise_resolve Null"
| "answer this (Plain ownThen native v) =
     (if ownThen then Returned (Plain ownThen native v)
      else Promise_resolve (Plain ownThen native v))"
| "answer this (Question ownThen native answeredBy) =
     (if ownThen then Returned (Question ownThen native answeredBy)
      else answer this (answeredBy this))"

section \<open>Vocabulary of the statements\<close>

text \<open>
  What one tracked invocation works with: the details it makes, the pair of event
  classes it selects, and the outcome it reports for a settled activity.
\<close>

definition details_of :: "'x activity \<Rightarrow> 'x actor \<Rightarrow> activity_details" where
  "details_of activity actor =
     ActivityDetails (describe activity actor) (instantiationLocation activity)"

definition starts_of ::
  "'x activity \<Rightarrow> correlation_id \<Rightarrow> correlation_id \<Rightarrow> activity_details \<Rightarrow> timestamp \<Rightarrow> domain_event" where
  "starts_of activity = (if isInteraction activity then InteractionStarts else TaskStarts)"

definition finished_of ::
  "'x activity \<Rightarrow> correlation_id \<Rightarrow> correlation_id \<Rightarrow> activity_details \<Rightarrow> outcome \<Rightarrow> timestamp
     \<Rightarrow> domain_event" where
  "finished_of activity = (if isInteraction activity then InteractionFinished else TaskFinished)"

definition outcome_of :: "thrown + unit \<Rightarrow> outcome" where
  "outcome_of r = (case r of Inl e \<Rightarrow> outcomeFor e | Inr _ \<Rightarrow> ExecutionSuccessful)"

fun event_sceneId :: "domain_event \<Rightarrow> correlation_id" where
  "event_sceneId (TaskStarts s a d t) = s"
| "event_sceneId (TaskFinished s a d out t) = s"
| "event_sceneId (InteractionStarts s a d t) = s"
| "event_sceneId (InteractionFinished s a d out t) = s"

fun event_activityId :: "domain_event \<Rightarrow> correlation_id" where
  "event_activityId (TaskStarts s a d t) = a"
| "event_activityId (TaskFinished s a d out t) = a"
| "event_activityId (InteractionStarts s a d t) = a"
| "event_activityId (InteractionFinished s a d out t) = a"

fun event_details :: "domain_event \<Rightarrow> activity_details" where
  "event_details (TaskStarts s a d t) = d"
| "event_details (TaskFinished s a d out t) = d"
| "event_details (InteractionStarts s a d t) = d"
| "event_details (InteractionFinished s a d out t) = d"

text \<open>
  The chain of \<open>attemptsTo\<close> as the specification words it: an explicit loop that
  waits for the next cue, performs the tracked activity and stops at the first failure.
\<close>

fun perform_in_order :: "'x actor \<Rightarrow> 'x activity list \<Rightarrow> ('x, unit) promise" where
  "perform_in_order actor [] = promise_resolve ()"
| "perform_in_order actor (activity # rest) = (\<lambda>w.
     case waitForNextCue w of
       (Inl e, w1, t1) \<Rightarrow> (Inl e, w1, t1)
     | (Inr _, w1, t1) \<Rightarrow>
         (case tracked_performAs (TrackedActivity activity) actor w1 of
            (Inl e, w2, t2) \<Rightarrow> (Inl e, w2, t1 @ t2)
          | (Inr _, w2, t2) \<Rightarrow>
              (case perform_in_order actor rest w2 of (r, w3, t3) \<Rightarrow> (r, w3, t1 @ t2 @ t3))))"

text \<open>Calling one method on a list of abilities, one after the other, until a call fails.\<close>

fun call_in_order ::
  "string \<Rightarrow> ('x ability \<Rightarrow> ('x \<Rightarrow> (thrown + unit) \<times> 'x) option) \<Rightarrow> 'x ability list
     \<Rightarrow> ('x, unit) promise" where
  "call_in_order methodName method [] = promise_resolve ()"
| "call_in_order methodName method (ability # rest) =
     promise_then (call_method methodName method ability)
       (\<lambda>_. call_in_order methodName method rest)"


text \<open>The error that the handler of \<open>initialiseAbilities\<close> throws for an ability.\<close>

definition couldNotInitialise :: "'x actor \<Rightarrow> 'x ability \<Rightarrow> thrown \<Rightarrow> thrown" where
  "couldNotInitialise actor ability error =
     ErrorObject TestCompromisedError
       (name actor @ '' couldn't initialise the ability to ''
          @ interpolated (type_name (ability_class ability)))
       (Some error)"

section \<open>A cast for the examples\<close>

text \<open>
  The external system of the examples is the list of what was done to it. Wendy has
  no ability; Stan connects to a database that refuses him, browses the web and calls
  an API.
\<close>

definition CallAnApi :: js_class where
  "CallAnApi = Class 1 ''CallAnApi'' Ability"

definition BrowseTheWeb :: js_class where
  "BrowseTheWeb = Class 2 ''BrowseTheWeb'' Ability"

definition BrowseTheWebWithProtractor :: js_class where
  "BrowseTheWebWithProtractor = Class 3 ''BrowseTheWebWithProtractor'' BrowseTheWeb"

definition ConnectToDatabase :: js_class where
  "ConnectToDatabase = Class 4 ''ConnectToDatabase'' Ability"

definition callAnApi :: "string list ability" where
  "callAnApi = \<lparr>ability_class = CallAnApi, discard = None, initialise = None, isInitialised = None\<rparr>"

definition browseTheWeb :: "string list ability" where
  "browseTheWeb = \<lparr>ability_class = BrowseTheWeb, discard = None, initialise = None,
     isInitialised = None\<rparr>"

definition browser :: "string list ability" where
  "browser = \<lparr>ability_class = BrowseTheWebWithProtractor,
     discard = Some (\<lambda>x. (Inr (), x @ [''browser closed''])),
     initialise = Some (\<lambda>x. (Inr (), x @ [''browser started''])),
     isInitialised = Some (\<lambda>x. ''browser started'' \<in> set x)\<rparr>"

definition database :: "string list ability" where
  "database = \<lparr>ability_class = ConnectToDatabase,
     discard = Some (\<lambda>x. (Inl (ErrorObject Error ''not connected'' None), x)),
     initialise = Some (\<lambda>x. (Inl (ErrorObject Error ''connection refused'' None), x)),
     isInitialised = Some (\<lambda>x. False)\<rparr>"

definition Wendy :: "string list actor" where
  "Wendy = \<lparr>name = ''Wendy'', abilities = []\<rparr>"

definition Stan :: "string list actor" where
  "Stan = \<lparr>name = ''Stan'',
     abilities = [(ConnectToDatabase, database), (BrowseTheWeb, browser), (CallAnApi, callAnApi)]\<rparr>"

definition Spender :: "string list actor" where
  "Spender = \<lparr>name = ''Big $$ Spender'', abilities = []\<rparr>"

definition backstage :: "string list world" where
  "backstage = \<lparr>currentScene = CorrelationId 0, currentActivity = None, minted = 1,
     clock = Timestamp 0, system = []\<rparr>"

definition navigate :: "string list activity" where
  "navigate = \<lparr>toString = ''#actor navigates to the page'',
     constructor_name_of = ''Navigate'', isInteraction = True,
     instantiationLocation = FileSystemLocation ''isSelected.spec.ts'' 20 13,
     performAs = (\<lambda>actor w.
       (Inr (), w\<lparr>clock := Timestamp 3, system := system w @ [''page'']\<rparr>, []))\<rparr>"

definition selectJava :: "string list activity" where
  "selectJava = \<lparr>toString = ''#actor ensures that the Java option does become selected'',
     constructor_name_of = ''Ensure'', isInteraction = True,
     instantiationLocation = FileSystemLocation ''isSelected.spec.ts'' 44 17,
     performAs = (\<lambda>actor w.
       (Inl (ErrorObject AssertionError ''Expected the Java option to become selected'' None),
        w\<lparr>clock := Timestamp 7\<rparr>, []))\<rparr>"

definition closeTab :: "string list activity" where
  "closeTab = \<lparr>toString = ''#actor closes the tab'',
     constructor_name_of = ''CloseTab'', isInteraction = True,
     instantiationLocation = FileSystemLocation ''isSelected.spec.ts'' 50 13,
     performAs = (\<lambda>actor w. (Inr (), w\<lparr>system := system w @ [''tab closed'']\<rparr>, []))\<rparr>"

text \<open>A task that has no description of its own and performs \<open>selectJava\<close>, tracked.\<close>

definition checkout :: "string list activity" where
  "checkout = \<lparr>toString = ''[object Object]'',
     constructor_name_of = ''Checkout'', isInteraction = False,
     instantiationLocation = FileSystemLocation ''checkout.ts'' 3 1,
     performAs = (\<lambda>actor. tracked_performAs (TrackedActivity selectJava) actor)\<rparr>"

section \<open>Outcome classification\<close>

text \<open>
  C1, as the code has it. The outcome matcher is a total function of the thrown value,
  and it is the priority chain of the specification when "is a" is read as "is an
  instance of, or is the class itself": implementation pending, then compromised, then
  the framework's assertion error, then an Error whose constructor name contains
  AssertionError, and the generic failure for every other value.
\<close>

theorem outcomeFor_priority:
  "outcomeFor e = outcome_by_priority e"
proof (cases e)
  case (ErrorObject c m cause)
  then show ?thesis
    by (simp add: outcomeFor_def outcome_by_priority_def is_a_def match_def regexp_test_def)
next
  case (ErrorClass c)
  then show ?thesis
    by (simp add: outcomeFor_def outcome_by_priority_def is_a_def match_def regexp_test_def
        sublist_Cons_right)
next
  case (NonError ty n)
  then show ?thesis
    by (cases ty)
       (simp_all add: outcomeFor_def outcome_by_priority_def is_a_def match_def)
qed

theorem outcomeFor_priority_witness:
  "outcomeFor (ErrorObject ImplementationPendingError ''todo'' None)
     = ImplementationPending (ErrorObject ImplementationPendingError ''todo'' None)
   \<and> outcomeFor (ErrorObject TestCompromisedError ''db down'' None)
     = ExecutionCompromised (ErrorObject TestCompromisedError ''db down'' None)
   \<and> outcomeFor (ErrorObject AssertionError ''expected 1'' None)
     = ExecutionFailedWithAssertionError (ErrorObject AssertionError ''expected 1'' None)
   \<and> outcomeFor (ErrorObject (UserError ''AssertionError'' Error) ''chai'' None)
     = ExecutionFailedWithAssertionError (ErrorObject (UserError ''AssertionError'' Error) ''chai'' None)
   \<and> outcomeFor (ErrorObject Error ''boom'' None)
     = ExecutionFailedWithError (ErrorObject Error ''boom'' None)
   \<and> outcomeFor (NonError TypeString ''String'') = ExecutionFailedWithError (NonError TypeString ''String'')
   \<and> outcomeFor (NonError TypeUndefined []) = ExecutionFailedWithError (NonError TypeUndefined [])
   \<and> outcomeFor (ErrorObject (UserError ''PendingAssertionError'' ImplementationPendingError) ''later'' None)
     = ImplementationPending
         (ErrorObject (UserError ''PendingAssertionError'' ImplementationPendingError) ''later'' None)
   \<and> outcomeFor (ErrorClass ImplementationPendingError) = ImplementationPending (ErrorClass ImplementationPendingError)
   \<and> outcomeFor (ErrorClass Error) = ExecutionFailedWithError (ErrorClass Error)"
  using outcomeFor_priority [of "ErrorObject ImplementationPendingError ''todo'' None"]
    outcomeFor_priority
      [of "ErrorObject (UserError ''PendingAssertionError'' ImplementationPendingError) ''later'' None"]
    outcomeFor_priority [of "ErrorObject TestCompromisedError ''db down'' None"]
    outcomeFor_priority [of "ErrorObject AssertionError ''expected 1'' None"]
    outcomeFor_priority [of "ErrorObject (UserError ''AssertionError'' Error) ''chai'' None"]
    outcomeFor_priority [of "ErrorObject Error ''boom'' None"]
    outcomeFor_priority [of "NonError TypeString ''String''"]
    outcomeFor_priority [of "NonError TypeUndefined []"]
    outcomeFor_priority [of "ErrorClass ImplementationPendingError"]
    outcomeFor_priority [of "ErrorClass Error"]
  by (simp add: outcome_by_priority_def is_a_def sublist_Cons_right)

lemma outcomeFor_as_claimed_unless_class:
  "\<forall>c. e \<noteq> ErrorClass c \<Longrightarrow> outcomeFor e = outcome_as_claimed e"
  by (cases e)
     (simp_all add: outcomeFor_def outcome_as_claimed_def match_def regexp_test_def
        split: js_type.splits)

text \<open>
  C1, as stated, fails: the class TestCompromisedError, thrown without being
  instantiated, is no Error and no instance of any error class, so the claim gives it
  the generic failure; the matcher compares a thrown function with each class by
  identity and the outcome is ExecutionCompromised.
\<close>

theorem outcomeFor_thrown_class_counterexample:
  "\<not> instanceof (ErrorClass TestCompromisedError) Error
   \<and> outcome_as_claimed (ErrorClass TestCompromisedError)
       = ExecutionFailedWithError (ErrorClass TestCompromisedError)
   \<and> outcomeFor (ErrorClass TestCompromisedError)
       = ExecutionCompromised (ErrorClass TestCompromisedError)
   \<and> outcomeFor (ErrorClass TestCompromisedError)
       \<noteq> outcome_as_claimed (ErrorClass TestCompromisedError)"
  by (simp add: outcomeFor_def outcome_as_claimed_def match_def)

section \<open>Tracked activities\<close>

lemma promise_then_resolve [simp]: "promise_then (promise_resolve v) f = f v"
  by (auto simp: promise_then_def promise_resolve_def fun_eq_iff split: prod.splits sum.splits)

lemma promise_then_assoc:
  "promise_then (promise_then p f) g = promise_then p (\<lambda>v. promise_then (f v) g)"
  by (auto simp: promise_then_def fun_eq_iff split: prod.splits sum.splits)

text \<open>
  One tracked invocation, run: the Starts event, what the activity itself emits, the
  Finished event; the result and the world are those the activity leaves.
\<close>

lemma tracked_performAs_run:
  "tracked_performAs (TrackedActivity activity) actor w =
     (let sceneId = currentSceneId w;
          details = details_of activity actor;
          activityId = fst (assignNewActivityId details w);
          w1 = snd (assignNewActivityId details w)
      in case performAs activity actor w1 of
           (r, w2, t) \<Rightarrow>
             (r, w2,
              Announced (starts_of activity sceneId activityId details (currentTime w1)) # t @
              [Announced (finished_of activity sceneId activityId details (outcome_of r)
                 (currentTime w2))]))"
  by (auto simp: Let_def starts_of_def finished_of_def details_of_def outcome_of_def
      promise_then_def promise_catch_def promise_resolve_def promise_reject_def announce_def
      split: prod.splits sum.splits)

lemma outcomeFor_AssertionError:
  "outcomeFor (ErrorObject AssertionError m c) =
     ExecutionFailedWithAssertionError (ErrorObject AssertionError m c)"
  by (simp add: outcomeFor_def match_def)

lemma details_selectJava:
  "details_of selectJava Wendy =
     ActivityDetails (Name ''Wendy ensures that the Java option does become selected'')
       (FileSystemLocation ''isSelected.spec.ts'' 44 17)"
  by (simp add: details_of_def describe_def includeActorName_def replace_def selectJava_def
      Wendy_def)

lemma details_checkout:
  "details_of checkout Wendy =
     ActivityDetails (Name ''Wendy performs Checkout'') (FileSystemLocation ''checkout.ts'' 3 1)"
  by (simp add: details_of_def describe_def includeActorName_def replace_def checkout_def
      Wendy_def)

lemma details_navigate:
  "details_of navigate Wendy =
     ActivityDetails (Name ''Wendy navigates to the page'')
       (FileSystemLocation ''isSelected.spec.ts'' 20 13)"
  by (simp add: details_of_def describe_def includeActorName_def replace_def navigate_def
      Wendy_def)

lemma selectJava_run:
  "tracked_performAs (TrackedActivity selectJava) Wendy w =
     (Inl (ErrorObject AssertionError ''Expected the Java option to become selected'' None),
      w\<lparr>currentActivity := Some (CorrelationId (minted w), details_of selectJava Wendy),
         minted := Suc (minted w), clock := Timestamp 7\<rparr>,
      [Announced (InteractionStarts (currentScene w) (CorrelationId (minted w))
         (details_of selectJava Wendy) (clock w)),
       Announced (InteractionFinished (currentScene w) (CorrelationId (minted w))
         (details_of selectJava Wendy)
         (ExecutionFailedWithAssertionError
            (ErrorObject AssertionError ''Expected the Java option to become selected'' None))
         (Timestamp 7))])"
proof -
  have kind: "isInteraction selectJava"
    by (simp add: selectJava_def)
  have run: "performAs selectJava Wendy w' =
      (Inl (ErrorObject AssertionError ''Expected the Java option to become selected'' None),
       w'\<lparr>clock := Timestamp 7\<rparr>, [])" for w'
    by (simp add: selectJava_def)
  show ?thesis
    by (simp add: tracked_performAs_run Let_def run kind starts_of_def finished_of_def
        outcome_of_def outcomeFor_AssertionError assignNewActivityId_def
        currentSceneId_def currentTime_def del: tracked_performAs.simps)
qed

lemma navigate_run:
  "tracked_performAs (TrackedActivity navigate) Wendy w =
     (Inr (),
      w\<lparr>currentActivity := Some (CorrelationId (minted w), details_of navigate Wendy),
         minted := Suc (minted w), clock := Timestamp 3, system := system w @ [''page'']\<rparr>,
      [Announced (InteractionStarts (currentScene w) (CorrelationId (minted w))
         (details_of navigate Wendy) (clock w)),
       Announced (InteractionFinished (currentScene w) (CorrelationId (minted w))
         (details_of navigate Wendy) ExecutionSuccessful (Timestamp 3))])"
proof -
  have kind: "isInteraction navigate"
    by (simp add: navigate_def)
  have run: "performAs navigate Wendy w' =
      (Inr (), w'\<lparr>clock := Timestamp 3, system := system w' @ [''page'']\<rparr>, [])" for w'
    by (simp add: navigate_def)
  show ?thesis
    by (simp add: tracked_performAs_run Let_def run kind starts_of_def finished_of_def
        outcome_of_def assignNewActivityId_def
        currentSceneId_def currentTime_def del: tracked_performAs.simps)
qed

text \<open>
  C2. When the wrapped activity fails with \<open>e\<close>, the tracked wrapper fails with the
  very same \<open>e\<close>, in the world the activity left, and the last thing it emitted before
  failing is the Finished event of the activity's kind (InteractionFinished for an
  Interaction, TaskFinished otherwise) carrying the outcome classified from \<open>e\<close>.
\<close>

theorem tracked_failure_is_announced_and_rethrown:
  "performAs activity actor (snd (assignNewActivityId (details_of activity actor) w)) = (Inl e, w2, t)
   \<Longrightarrow> tracked_performAs (TrackedActivity activity) actor w =
       (Inl e, w2,
        Announced
          ((if isInteraction activity then InteractionStarts else TaskStarts)
            (currentSceneId w)
            (fst (assignNewActivityId (details_of activity actor) w))
            (details_of activity actor)
            (currentTime (snd (assignNewActivityId (details_of activity actor) w)))) #
        t @
        [Announced
          ((if isInteraction activity then InteractionFinished else TaskFinished)
            (currentSceneId w)
            (fst (assignNewActivityId (details_of activity actor) w))
            (details_of activity actor)
            (outcomeFor e)
            (currentTime w2))])"
  by (simp add: tracked_performAs_run Let_def starts_of_def finished_of_def outcome_of_def
      del: tracked_performAs.simps)

theorem tracked_failure_is_announced_and_rethrown_witness:
  "tracked_performAs (TrackedActivity selectJava) Wendy backstage =
     (Inl (ErrorObject AssertionError ''Expected the Java option to become selected'' None),
      \<lparr>currentScene = CorrelationId 0,
        currentActivity = Some (CorrelationId 1, details_of selectJava Wendy), minted = 2,
        clock = Timestamp 7, system = []\<rparr>,
      [Announced (InteractionStarts (CorrelationId 0) (CorrelationId 1)
         (details_of selectJava Wendy) (Timestamp 0)),
       Announced (InteractionFinished (CorrelationId 0) (CorrelationId 1)
         (details_of selectJava Wendy)
         (ExecutionFailedWithAssertionError
            (ErrorObject AssertionError ''Expected the Java option to become selected'' None))
         (Timestamp 7))])"
proof -
  let ?w1 = "snd (assignNewActivityId (details_of selectJava Wendy) backstage)"
  let ?e = "ErrorObject AssertionError ''Expected the Java option to become selected'' None"
  have run: "performAs selectJava Wendy ?w1 = (Inl ?e, ?w1\<lparr>clock := Timestamp 7\<rparr>, [])"
    by (simp add: selectJava_def)
  have kind: "isInteraction selectJava"
    by (simp add: selectJava_def)
  show ?thesis
    using tracked_failure_is_announced_and_rethrown [OF run]
    by (simp add: kind outcomeFor_AssertionError assignNewActivityId_def
        currentSceneId_def currentTime_def backstage_def del: tracked_performAs.simps)
qed

text \<open>
  C10. Whatever the wrapped activity does, to the stage included, one tracked
  invocation emits a Starts event first and a Finished event last, around what the
  activity itself emits, and both carry the scene id read before the activity ran, the
  activity id minted before it ran, and the details made before it ran.
\<close>

theorem starts_and_finished_correlate:
  "\<exists>starts finished.
     snd (snd (tracked_performAs (TrackedActivity activity) actor w)) =
       Announced starts #
       snd (snd (performAs activity actor
                   (snd (assignNewActivityId (details_of activity actor) w)))) @
       [Announced finished]
     \<and> event_sceneId starts = currentSceneId w
     \<and> event_sceneId finished = currentSceneId w
     \<and> event_activityId starts = fst (assignNewActivityId (details_of activity actor) w)
     \<and> event_activityId finished = fst (assignNewActivityId (details_of activity actor) w)
     \<and> event_details starts = details_of activity actor
     \<and> event_details finished = details_of activity actor"
proof -
  let ?w1 = "snd (assignNewActivityId (details_of activity actor) w)"
  obtain r w2 t where run: "performAs activity actor ?w1 = (r, w2, t)"
    by (cases "performAs activity actor ?w1")
  show ?thesis
    by (cases "isInteraction activity")
       (simp_all add: tracked_performAs_run Let_def run starts_of_def finished_of_def
          del: tracked_performAs.simps)
qed

theorem starts_and_finished_correlate_witness:
  "(\<exists>starts finished.
     snd (snd (tracked_performAs (TrackedActivity checkout) Wendy backstage)) =
       Announced starts #
       snd (snd (performAs checkout Wendy
                   (snd (assignNewActivityId (details_of checkout Wendy) backstage)))) @
       [Announced finished]
     \<and> event_sceneId starts = currentSceneId backstage
     \<and> event_sceneId finished = currentSceneId backstage
     \<and> event_activityId starts = fst (assignNewActivityId (details_of checkout Wendy) backstage)
     \<and> event_activityId finished = fst (assignNewActivityId (details_of checkout Wendy) backstage)
     \<and> event_details starts = details_of checkout Wendy
     \<and> event_details finished = details_of checkout Wendy)
   \<and> snd (snd (tracked_performAs (TrackedActivity checkout) Wendy backstage)) =
      [Announced (TaskStarts (CorrelationId 0) (CorrelationId 1)
         (details_of checkout Wendy) (Timestamp 0)),
       Announced (InteractionStarts (CorrelationId 0) (CorrelationId 2)
         (details_of selectJava Wendy) (Timestamp 0)),
       Announced (InteractionFinished (CorrelationId 0) (CorrelationId 2)
         (details_of selectJava Wendy)
         (ExecutionFailedWithAssertionError
            (ErrorObject AssertionError ''Expected the Java option to become selected'' None))
         (Timestamp 7)),
       Announced (TaskFinished (CorrelationId 0) (CorrelationId 1)
         (details_of checkout Wendy)
         (ExecutionFailedWithAssertionError
            (ErrorObject AssertionError ''Expected the Java option to become selected'' None))
         (Timestamp 7))]
   \<and> currentActivity (fst (snd (tracked_performAs (TrackedActivity checkout) Wendy backstage)))
       = Some (CorrelationId 2, details_of selectJava Wendy)"
proof -
  have kind: "\<not> isInteraction checkout"
    by (simp add: checkout_def)
  have inner: "performAs checkout Wendy = tracked_performAs (TrackedActivity selectJava) Wendy"
    by (simp add: checkout_def)
  have run: "tracked_performAs (TrackedActivity checkout) Wendy backstage =
    (Inl (ErrorObject AssertionError ''Expected the Java option to become selected'' None),
     \<lparr>currentScene = CorrelationId 0,
        currentActivity = Some (CorrelationId 2, details_of selectJava Wendy), minted = 3,
        clock = Timestamp 7, system = []\<rparr>,
     [Announced (TaskStarts (CorrelationId 0) (CorrelationId 1)
         (details_of checkout Wendy) (Timestamp 0)),
       Announced (InteractionStarts (CorrelationId 0) (CorrelationId 2)
         (details_of selectJava Wendy) (Timestamp 0)),
       Announced (InteractionFinished (CorrelationId 0) (CorrelationId 2)
         (details_of selectJava Wendy)
         (ExecutionFailedWithAssertionError
            (ErrorObject AssertionError ''Expected the Java option to become selected'' None))
         (Timestamp 7)),
       Announced (TaskFinished (CorrelationId 0) (CorrelationId 1)
         (details_of checkout Wendy)
         (ExecutionFailedWithAssertionError
            (ErrorObject AssertionError ''Expected the Java option to become selected'' None))
         (Timestamp 7))])"
    by (simp add: tracked_performAs_run [of checkout] Let_def inner selectJava_run kind
        starts_of_def finished_of_def outcome_of_def outcomeFor_AssertionError
        assignNewActivityId_def currentSceneId_def currentTime_def backstage_def
        del: tracked_performAs.simps)
  show ?thesis
    using starts_and_finished_correlate [of checkout Wendy backstage]
    by (simp only: run snd_conv fst_conv simp_thms world.simps)
qed

section \<open>Performing activities in order\<close>

lemma perform_in_order_Cons:
  "perform_in_order actor (a # rest) =
     promise_then (promise_then waitForNextCue (\<lambda>_. tracked_performAs (TrackedActivity a) actor))
       (\<lambda>_. perform_in_order actor rest)"
  by (auto simp: promise_then_def fun_eq_iff waitForNextCue_def simp del: tracked_performAs.simps
      split: prod.splits sum.splits)

lemma foldl_chain:
  "foldl (\<lambda>previous current.
            promise_then (promise_then previous (\<lambda>_. waitForNextCue))
              (\<lambda>_. tracked_performAs current actor))
      p (map TrackedActivity activities)
   = promise_then p (\<lambda>_. perform_in_order actor activities)"
  (is "foldl ?step p _ = _")
proof (induction activities arbitrary: p)
  case Nil
  show ?case
    by (auto simp: promise_then_def promise_resolve_def fun_eq_iff split: prod.splits sum.splits)
next
  case (Cons a rest)
  have "foldl ?step p (map TrackedActivity (a # rest))
      = foldl ?step (?step p (TrackedActivity a)) (map TrackedActivity rest)"
    by (simp del: tracked_performAs.simps)
  also have "\<dots> = promise_then (?step p (TrackedActivity a)) (\<lambda>_. perform_in_order actor rest)"
    by (rule Cons.IH)
  also have "\<dots> = promise_then p (\<lambda>_. perform_in_order actor (a # rest))"
    by (simp only: perform_in_order_Cons promise_then_assoc)
  finally show ?case .
qed

lemma attemptsTo_loop:
  "attemptsTo actor activities =
     promise_then (initialiseAbilities actor) (\<lambda>_. perform_in_order actor activities)"
  unfolding attemptsTo_def by (rule foldl_chain)

lemma attemptsTo_snoc:
  "attemptsTo actor (pre @ [a]) =
     promise_then (promise_then (attemptsTo actor pre) (\<lambda>_. waitForNextCue))
       (\<lambda>_. tracked_performAs (TrackedActivity a) actor)"
  by (simp add: attemptsTo_def)

lemma attemptsTo_append:
  "attemptsTo actor (pre @ post) =
     promise_then (attemptsTo actor pre) (\<lambda>_. perform_in_order actor post)"
  unfolding attemptsTo_def map_append foldl_append by (rule foldl_chain)

lemma attemptsTo_fail_fast:
  assumes "attemptsTo actor pre w = (Inr (), w1, t1)"
    and "performAs a actor (snd (assignNewActivityId (details_of a actor) w1)) = (Inl e, w2, t2)"
  shows "attemptsTo actor (pre @ a # post) w =
      (Inl e, w2,
       t1 @ WaitedForNextCue #
       Announced (starts_of a (currentSceneId w1) (fst (assignNewActivityId (details_of a actor) w1))
                   (details_of a actor) (currentTime (snd (assignNewActivityId (details_of a actor) w1)))) #
       t2 @
       [Announced (finished_of a (currentSceneId w1) (fst (assignNewActivityId (details_of a actor) w1))
                   (details_of a actor) (outcomeFor e) (currentTime w2))])"
  using assms
  by (simp add: attemptsTo_append promise_then_def waitForNextCue_def tracked_performAs_run
      Let_def outcome_of_def del: tracked_performAs.simps)

lemma initialiseAbilities_Wendy: "initialiseAbilities Wendy = promise_resolve ()"
  by (simp add: initialiseAbilities_def findAbilitiesOfType_def Wendy_def fun_eq_iff)

text \<open>
  C5. \<open>attemptsTo\<close> is the initialisation of the abilities followed by the loop that,
  for each activity in the given order, waits for the stage's next cue and then performs
  the tracked activity; and it is fail-fast: when the chain run on the activities
  \<open>pre\<close> succeeds and the next activity \<open>a\<close> fails with \<open>e\<close>, the chain run on
  \<open>pre\<close>, \<open>a\<close> and any further activities \<open>post\<close> fails with \<open>e\<close>, in the world
  \<open>a\<close> left, having emitted nothing after the Finished event of \<open>a\<close>: the result
  does not depend on \<open>post\<close>.
\<close>

theorem attemptsTo_sequential_and_fail_fast:
  "attemptsTo actor activities =
     promise_then (initialiseAbilities actor) (\<lambda>_. perform_in_order actor activities)
   \<and> (attemptsTo actor pre w = (Inr (), w1, t1)
        \<and> performAs a actor (snd (assignNewActivityId (details_of a actor) w1)) = (Inl e, w2, t2)
      \<longrightarrow> attemptsTo actor (pre @ a # post) w =
           (Inl e, w2,
            t1 @ WaitedForNextCue #
            Announced (starts_of a (currentSceneId w1)
                        (fst (assignNewActivityId (details_of a actor) w1)) (details_of a actor)
                        (currentTime (snd (assignNewActivityId (details_of a actor) w1)))) #
            t2 @
            [Announced (finished_of a (currentSceneId w1)
                        (fst (assignNewActivityId (details_of a actor) w1)) (details_of a actor)
                        (outcomeFor e) (currentTime w2))]))"
proof (intro conjI impI)
  show "attemptsTo actor activities =
     promise_then (initialiseAbilities actor) (\<lambda>_. perform_in_order actor activities)"
    by (rule attemptsTo_loop)
next
  assume h: "attemptsTo actor pre w = (Inr (), w1, t1)
        \<and> performAs a actor (snd (assignNewActivityId (details_of a actor) w1)) = (Inl e, w2, t2)"
  from h have h1: "attemptsTo actor pre w = (Inr (), w1, t1)" by (rule conjunct1)
  from h have h2: "performAs a actor (snd (assignNewActivityId (details_of a actor) w1)) = (Inl e, w2, t2)"
    by (rule conjunct2)
  show "attemptsTo actor (pre @ a # post) w =
           (Inl e, w2,
            t1 @ WaitedForNextCue #
            Announced (starts_of a (currentSceneId w1)
                        (fst (assignNewActivityId (details_of a actor) w1)) (details_of a actor)
                        (currentTime (snd (assignNewActivityId (details_of a actor) w1)))) #
            t2 @
            [Announced (finished_of a (currentSceneId w1)
                        (fst (assignNewActivityId (details_of a actor) w1)) (details_of a actor)
                        (outcomeFor e) (currentTime w2))])"
    by (rule attemptsTo_fail_fast [OF h1 h2])
qed

theorem attemptsTo_sequential_and_fail_fast_witness:
  "attemptsTo Wendy [navigate] backstage =
     (Inr (),
      \<lparr>currentScene = CorrelationId 0,
        currentActivity = Some (CorrelationId 1, details_of navigate Wendy), minted = 2,
        clock = Timestamp 3, system = [''page'']\<rparr>,
      [WaitedForNextCue,
       Announced (InteractionStarts (CorrelationId 0) (CorrelationId 1) (details_of navigate Wendy) (Timestamp 0)),
       Announced (InteractionFinished (CorrelationId 0) (CorrelationId 1) (details_of navigate Wendy)
         ExecutionSuccessful (Timestamp 3))])
   \<and> attemptsTo Wendy [navigate, selectJava, closeTab] backstage =
     (Inl (ErrorObject AssertionError ''Expected the Java option to become selected'' None),
      \<lparr>currentScene = CorrelationId 0,
        currentActivity = Some (CorrelationId 2, details_of selectJava Wendy), minted = 3,
        clock = Timestamp 7, system = [''page'']\<rparr>,
      [WaitedForNextCue,
       Announced (InteractionStarts (CorrelationId 0) (CorrelationId 1) (details_of navigate Wendy) (Timestamp 0)),
       Announced (InteractionFinished (CorrelationId 0) (CorrelationId 1) (details_of navigate Wendy)
         ExecutionSuccessful (Timestamp 3)),
       WaitedForNextCue,
       Announced (InteractionStarts (CorrelationId 0) (CorrelationId 2) (details_of selectJava Wendy) (Timestamp 3)),
       Announced (InteractionFinished (CorrelationId 0) (CorrelationId 2) (details_of selectJava Wendy)
         (ExecutionFailedWithAssertionError
            (ErrorObject AssertionError ''Expected the Java option to become selected'' None))
         (Timestamp 7))])"
proof -
  let ?w1 = "\<lparr>currentScene = CorrelationId 0,
        currentActivity = Some (CorrelationId 1, details_of navigate Wendy), minted = 2,
        clock = Timestamp 3, system = [''page'']\<rparr> :: string list world"
  let ?t1 = "[WaitedForNextCue,
       Announced (InteractionStarts (CorrelationId 0) (CorrelationId 1) (details_of navigate Wendy) (Timestamp 0)),
       Announced (InteractionFinished (CorrelationId 0) (CorrelationId 1) (details_of navigate Wendy)
         ExecutionSuccessful (Timestamp 3))] :: string list observed list"
  let ?e = "ErrorObject AssertionError ''Expected the Java option to become selected'' None"
  let ?w1' = "snd (assignNewActivityId (details_of selectJava Wendy) ?w1)"
  have first: "attemptsTo Wendy [navigate] backstage = (Inr (), ?w1, ?t1)"
    by (simp add: attemptsTo_def initialiseAbilities_Wendy promise_then_def promise_resolve_def
        waitForNextCue_def navigate_run backstage_def del: tracked_performAs.simps)
  have second: "performAs selectJava Wendy ?w1' = (Inl ?e, ?w1'\<lparr>clock := Timestamp 7\<rparr>, [])"
    by (simp add: selectJava_def)
  have kind: "isInteraction selectJava"
    by (simp add: selectJava_def)
  have "attemptsTo Wendy ([navigate] @ selectJava # [closeTab]) backstage =
           (Inl ?e, ?w1'\<lparr>clock := Timestamp 7\<rparr>,
            ?t1 @ WaitedForNextCue #
            Announced (starts_of selectJava (currentSceneId ?w1)
                        (fst (assignNewActivityId (details_of selectJava Wendy) ?w1)) (details_of selectJava Wendy)
                        (currentTime ?w1')) #
            [] @
            [Announced (finished_of selectJava (currentSceneId ?w1)
                        (fst (assignNewActivityId (details_of selectJava Wendy) ?w1)) (details_of selectJava Wendy)
                        (outcomeFor ?e) (currentTime (?w1'\<lparr>clock := Timestamp 7\<rparr>)))])"
    using attemptsTo_sequential_and_fail_fast
      [of Wendy "[]" "[navigate]" backstage ?w1 ?t1 selectJava ?e "?w1'\<lparr>clock := Timestamp 7\<rparr>" "[]" "[closeTab]"]
      first second by blast
  then have third: "attemptsTo Wendy [navigate, selectJava, closeTab] backstage =
     (Inl ?e,
      \<lparr>currentScene = CorrelationId 0,
        currentActivity = Some (CorrelationId 2, details_of selectJava Wendy), minted = 3,
        clock = Timestamp 7, system = [''page'']\<rparr>,
      ?t1 @ [WaitedForNextCue,
       Announced (InteractionStarts (CorrelationId 0) (CorrelationId 2) (details_of selectJava Wendy) (Timestamp 3)),
       Announced (InteractionFinished (CorrelationId 0) (CorrelationId 2) (details_of selectJava Wendy)
         (ExecutionFailedWithAssertionError ?e) (Timestamp 7))])"
    by (simp add: kind starts_of_def finished_of_def outcomeFor_AssertionError
        assignNewActivityId_def currentSceneId_def currentTime_def)
  show ?thesis
    using first third by simp
qed

section \<open>Calling the abilities in order\<close>

lemma call_in_order_trace:
  "\<forall>a \<in> set as. sel a \<noteq> None \<Longrightarrow> call_in_order m sel as w = (r, w', t) \<Longrightarrow>
     t = map (Called m) (take (length t) as)
     \<and> (r = Inr () \<longrightarrow> t = map (Called m) as)
     \<and> (\<forall>e. r = Inl e \<longrightarrow>
          t \<noteq> [] \<and> (\<exists>f x. sel (as ! (length t - 1)) = Some f \<and> fst (f x) = Inl e))"
proof (induction as arbitrary: w r w' t)
  case Nil
  then show ?case by (auto simp: promise_resolve_def)
next
  case (Cons a rest)
  from Cons.prems(1) obtain f where f: "sel a = Some f" by auto
  obtain r0 x0 where step: "f (system w) = (r0, x0)" by (cases "f (system w)")
  show ?case
  proof (cases r0)
    case (Inl e0)
    with Cons.prems(2) f step have res: "r = Inl e0" "t = [Called m a]"
      by (simp_all add: promise_then_def call_method_def)
    have "fst (f (system w)) = Inl e0" using step Inl by simp
    with res f show ?thesis by auto
  next
    case (Inr u)
    obtain r1 w1 t1 where rest: "call_in_order m sel rest (w\<lparr>system := x0\<rparr>) = (r1, w1, t1)"
      by (cases "call_in_order m sel rest (w\<lparr>system := x0\<rparr>)")
    with Cons.prems(2) f step Inr have res: "r = r1" "w' = w1" "t = Called m a # t1"
      by (simp_all add: promise_then_def call_method_def)
    from Cons.prems(1) have "\<forall>a \<in> set rest. sel a \<noteq> None" by simp
    from Cons.IH [OF this rest] have
      ih1: "t1 = map (Called m) (take (length t1) rest)"
      and ih2: "r1 = Inr () \<longrightarrow> t1 = map (Called m) rest"
      and ih3: "\<forall>e. r1 = Inl e \<longrightarrow>
          t1 \<noteq> [] \<and> (\<exists>f x. sel (rest ! (length t1 - 1)) = Some f \<and> fst (f x) = Inl e)"
      by blast+
    have c1: "t = map (Called m) (take (length t) (a # rest))"
      using ih1 res by simp
    have c2: "r = Inr () \<longrightarrow> t = map (Called m) (a # rest)"
      using ih2 res by simp
    have c3: "\<forall>e. r = Inl e \<longrightarrow>
          t \<noteq> [] \<and> (\<exists>f x. sel ((a # rest) ! (length t - 1)) = Some f \<and> fst (f x) = Inl e)"
    proof (intro allI impI)
      fix e assume "r = Inl e"
      with res ih3 have ne: "t1 \<noteq> []"
        and ex: "\<exists>f x. sel (rest ! (length t1 - 1)) = Some f \<and> fst (f x) = Inl e"
        by auto
      from ne have "(a # rest) ! (length t - 1) = rest ! (length t1 - 1)"
        using res by (cases t1) simp_all
      with ex res show "t \<noteq> [] \<and> (\<exists>f x. sel ((a # rest) ! (length t - 1)) = Some f \<and> fst (f x) = Inl e)"
        by simp
    qed
    from c1 c2 c3 show ?thesis by blast
  qed
qed

section \<open>Initialising abilities\<close>

lemma rejected_stays_rejected:
  "p w = (Inl e, w1, t) \<Longrightarrow>
   foldl
     (\<lambda>previous ability.
        promise_catch
          (promise_then previous (\<lambda>_. call_method ''initialise'' initialise ability))
          (\<lambda>error. promise_reject (couldNotInitialise actor ability error)))
     p as w
   = (Inl (foldl (\<lambda>error ability. couldNotInitialise actor ability error) e as), w1, t)"
proof (induction as arbitrary: p e)
  case Nil
  then show ?case by simp
next
  case (Cons a rest)
  let ?p' = "promise_catch
          (promise_then p (\<lambda>_. call_method ''initialise'' initialise a))
          (\<lambda>error. promise_reject (couldNotInitialise actor a error))"
  have "?p' w = (Inl (couldNotInitialise actor a e), w1, t)"
    using Cons.prems by (simp add: promise_catch_def promise_then_def promise_reject_def)
  from Cons.IH [of ?p', OF this] show ?case by simp
qed

lemma initialiseAbilities_unfold:
  "initialiseAbilities actor w =
     foldl
       (\<lambda>previous ability.
          promise_catch
            (promise_then previous (\<lambda>_. call_method ''initialise'' initialise ability))
            (\<lambda>error. promise_reject (couldNotInitialise actor ability error)))
       (promise_resolve ())
       (filter (\<lambda>ability. \<not> call_isInitialised ability w)
          (findAbilitiesOfType [''initialise'', ''isInitialised''] actor))
       w"
  by (simp add: initialiseAbilities_def couldNotInitialise_def)

lemma first_failure_is_wrapped_by_every_later_ability:
  assumes todo: "filter (\<lambda>ability. \<not> call_isInitialised ability w)
          (findAbilitiesOfType [''initialise'', ''isInitialised''] actor) = a # rest"
    and init: "initialise a = Some f"
    and fails: "f (system w) = (Inl e, x)"
  shows "initialiseAbilities actor w =
     (Inl (foldl (\<lambda>error ability. couldNotInitialise actor ability error)
            (couldNotInitialise actor a e) rest),
      w\<lparr>system := x\<rparr>, [Called ''initialise'' a])"
proof -
  let ?p = "promise_catch
          (promise_then (promise_resolve ()) (\<lambda>_. call_method ''initialise'' initialise a))
          (\<lambda>error. promise_reject (couldNotInitialise actor a error))"
  have "?p w = (Inl (couldNotInitialise actor a e), w\<lparr>system := x\<rparr>, [Called ''initialise'' a])"
    using init fails
    by (simp add: promise_catch_def promise_then_def promise_reject_def promise_resolve_def
        call_method_def)
  from rejected_stays_rejected [of ?p, OF this, of actor rest] show ?thesis
    by (simp add: initialiseAbilities_unfold todo)
qed

text \<open>
  The initialisation, run: the abilities that have both methods and are not initialised
  when \<open>attemptsTo\<close> is called are initialised in the order of the map until one
  fails; the failure is then wrapped once for the ability that failed and once more
  for every ability after it.
\<close>

lemma initialise_chain_run:
  assumes "\<forall>a \<in> set as. initialise a \<noteq> None"
    and "p w = (Inr (), w1, t1)"
  shows "foldl
     (\<lambda>previous ability.
        promise_catch
          (promise_then previous (\<lambda>_. call_method ''initialise'' initialise ability))
          (\<lambda>error. promise_reject (couldNotInitialise actor ability error)))
     p as w
   = (case call_in_order ''initialise'' initialise as w1 of
        (Inr u, w', t) \<Rightarrow> (Inr u, w', t1 @ t)
      | (Inl e, w', t) \<Rightarrow>
          (Inl (foldl (\<lambda>error ability. couldNotInitialise actor ability error) e
                  (drop (length t - 1) as)), w', t1 @ t))"
  using assms
proof (induction as arbitrary: p w1 t1)
  case Nil
  then show ?case by (simp add: promise_resolve_def)
next
  case (Cons a rest)
  let ?step = "\<lambda>previous ability.
        promise_catch
          (promise_then previous (\<lambda>_. call_method ''initialise'' initialise ability))
          (\<lambda>error. promise_reject (couldNotInitialise actor ability error))"
  from Cons.prems(1) obtain f where f: "initialise a = Some f" by auto
  from Cons.prems(1) have rest_ok: "\<forall>a \<in> set rest. initialise a \<noteq> None" by simp
  obtain r0 x0 where step: "f (system w1) = (r0, x0)" by (cases "f (system w1)")
  have call: "call_method ''initialise'' initialise a w1 = (r0, w1\<lparr>system := x0\<rparr>, [Called ''initialise'' a])"
    by (simp add: call_method_def f step)
  show ?case
  proof (cases r0)
    case (Inl e)
    have "?step p a w = (Inl (couldNotInitialise actor a e), w1\<lparr>system := x0\<rparr>, t1 @ [Called ''initialise'' a])"
      using Cons.prems(2) call Inl
      by (simp add: promise_catch_def promise_then_def promise_reject_def)
    from rejected_stays_rejected [of "?step p a", OF this, of actor rest]
    show ?thesis
      using call Inl by (simp add: promise_then_def)
  next
    case (Inr u)
    have next_p: "?step p a w = (Inr (), w1\<lparr>system := x0\<rparr>, t1 @ [Called ''initialise'' a])"
      using Cons.prems(2) call Inr
      by (simp add: promise_catch_def promise_then_def)
    obtain r1 w2 t2 where rest_run:
      "call_in_order ''initialise'' initialise rest (w1\<lparr>system := x0\<rparr>) = (r1, w2, t2)"
      by (cases "call_in_order ''initialise'' initialise rest (w1\<lparr>system := x0\<rparr>)")
    have ih: "foldl ?step (?step p a) rest w =
       (case call_in_order ''initialise'' initialise rest (w1\<lparr>system := x0\<rparr>) of
        (Inr u, w', t) \<Rightarrow> (Inr u, w', (t1 @ [Called ''initialise'' a]) @ t)
      | (Inl e, w', t) \<Rightarrow>
          (Inl (foldl (\<lambda>error ability. couldNotInitialise actor ability error) e
                  (drop (length t - 1) rest)), w', (t1 @ [Called ''initialise'' a]) @ t))"
      by (rule Cons.IH [of "?step p a" "w1\<lparr>system := x0\<rparr>" "t1 @ [Called ''initialise'' a]",
            OF rest_ok next_p])
    show ?thesis
    proof (cases r1)
      case (Inr u1)
      then show ?thesis
        using ih rest_run call \<open>r0 = Inr u\<close> by (simp add: promise_then_def)
    next
      case (Inl e)
      from call_in_order_trace [OF rest_ok rest_run] Inl have "t2 \<noteq> []" by blast
      then have "drop (length (Called ''initialise'' a # t2) - 1) (a # rest) = drop (length t2 - 1) rest"
        by (cases t2) simp_all
      then show ?thesis
        using ih rest_run call \<open>r0 = Inr u\<close> Inl by (simp add: promise_then_def)
    qed
  qed
qed

lemma initialiseAbilities_run:
  "initialiseAbilities actor w =
     (let todo = filter (\<lambda>ability. \<not> call_isInitialised ability w)
                   (findAbilitiesOfType [''initialise'', ''isInitialised''] actor)
      in case call_in_order ''initialise'' initialise todo w of
           (Inr u, w', t) \<Rightarrow> (Inr u, w', t)
         | (Inl e, w', t) \<Rightarrow>
             (Inl (foldl (\<lambda>error ability. couldNotInitialise actor ability error) e
                     (drop (length t - 1) todo)), w', t))"
proof -
  let ?todo = "filter (\<lambda>ability. \<not> call_isInitialised ability w)
                   (findAbilitiesOfType [''initialise'', ''isInitialised''] actor)"
  have ok: "\<forall>a \<in> set ?todo. initialise a \<noteq> None"
    by (auto simp: findAbilitiesOfType_def has_method_def)
  have start: "promise_resolve () w = (Inr (), w, [])"
    by (simp add: promise_resolve_def)
  show ?thesis
    unfolding initialiseAbilities_unfold Let_def
    using initialise_chain_run [where p = "promise_resolve ()" and w = w and ?w1.0 = w
        and ?t1.0 = "[]" and as = ?todo and actor = actor, OF ok start]
    by (simp split: prod.splits sum.splits)
qed

lemma attemptsTo_stops_when_initialisation_fails:
  "initialiseAbilities actor w = (Inl e, w', t) \<Longrightarrow> attemptsTo actor activities w = (Inl e, w', t)"
  by (simp add: attemptsTo_loop promise_then_def del: perform_in_order.simps)

lemma drop_to_last: "xs \<noteq> [] \<Longrightarrow> drop (length xs - 1) xs = [last xs]"
  by (induction xs) (auto simp: Suc_diff_le drop_Cons')

lemma failure_of_last_ability_is_wrapped_once:
  assumes "call_in_order ''initialise'' initialise
             (filter (\<lambda>ability. \<not> call_isInitialised ability w)
                (findAbilitiesOfType [''initialise'', ''isInitialised''] actor)) w = (Inl e, w', t)"
    and "length t = length (filter (\<lambda>ability. \<not> call_isInitialised ability w)
                (findAbilitiesOfType [''initialise'', ''isInitialised''] actor))"
  shows "initialiseAbilities actor w =
     (Inl (couldNotInitialise actor
            (last (filter (\<lambda>ability. \<not> call_isInitialised ability w)
                (findAbilitiesOfType [''initialise'', ''isInitialised''] actor))) e), w', t)"
proof -
  let ?todo = "filter (\<lambda>ability. \<not> call_isInitialised ability w)
                (findAbilitiesOfType [''initialise'', ''isInitialised''] actor)"
  have ok: "\<forall>a \<in> set ?todo. initialise a \<noteq> None"
    by (auto simp: findAbilitiesOfType_def has_method_def)
  from call_in_order_trace [OF ok assms(1)] have "t \<noteq> []" by blast
  with assms(2) have ne: "?todo \<noteq> []" by auto
  then have "drop (length ?todo - 1) ?todo = [last ?todo]"
    by (rule drop_to_last)
  then have "drop (length t - 1) ?todo = [last ?todo]"
    by (simp only: assms(2))
  then show ?thesis
    by (simp add: initialiseAbilities_run Let_def assms(1))
qed

text \<open>
  C6. Stan holds two abilities that need initialising, the database first and the
  browser second, and the database refuses the connection. The chain fails with a
  TestCompromisedError that names the browser, not the database, and whose cause is not
  the original error but the TestCompromisedError made for the database; the browser is
  never initialised and no activity runs.
\<close>

theorem initialisation_failure_is_wrapped_twice:
  "initialiseAbilities Stan backstage =
     (Inl (ErrorObject TestCompromisedError
            ''Stan couldn't initialise the ability to BrowseTheWebWithProtractor''
            (Some (ErrorObject TestCompromisedError
                     ''Stan couldn't initialise the ability to ConnectToDatabase''
                     (Some (ErrorObject Error ''connection refused'' None))))),
      backstage, [Called ''initialise'' database])
   \<and> attemptsTo Stan [navigate] backstage = initialiseAbilities Stan backstage"
proof -
  have m: "initialise database = Some (\<lambda>x. (Inl (ErrorObject Error ''connection refused'' None), x))"
    "isInitialised database = Some (\<lambda>x. False)"
    "initialise browser \<noteq> None" "isInitialised browser = Some (\<lambda>x. ''browser started'' \<in> set x)"
    "initialise callAnApi = None"
    by (simp_all add: database_def browser_def callAnApi_def)
  have found: "findAbilitiesOfType [''initialise'', ''isInitialised''] Stan = [database, browser]"
    by (simp add: findAbilitiesOfType_def has_method_def Stan_def m)
  have todo: "filter (\<lambda>ability. \<not> call_isInitialised ability backstage)
          (findAbilitiesOfType [''initialise'', ''isInitialised''] Stan) = database # [browser]"
    by (simp add: found call_isInitialised_def m backstage_def)
  have sys: "backstage\<lparr>system := system backstage\<rparr> = backstage"
    by simp
  have names: "type_name (ability_class database) = Some ''ConnectToDatabase''"
    "type_name (ability_class browser) = Some ''BrowseTheWebWithProtractor''"
    by (simp_all add: database_def browser_def ConnectToDatabase_def BrowseTheWebWithProtractor_def)
  have run: "initialiseAbilities Stan backstage =
     (Inl (ErrorObject TestCompromisedError
            ''Stan couldn't initialise the ability to BrowseTheWebWithProtractor''
            (Some (ErrorObject TestCompromisedError
                     ''Stan couldn't initialise the ability to ConnectToDatabase''
                     (Some (ErrorObject Error ''connection refused'' None))))),
      backstage, [Called ''initialise'' database])"
    using first_failure_is_wrapped_by_every_later_ability [OF todo m(1), of "ErrorObject Error ''connection refused'' None" "system backstage"]
    by (simp add: sys couldNotInitialise_def names) (simp add: Stan_def)
  have "attemptsTo Stan [navigate] backstage = initialiseAbilities Stan backstage"
    by (simp add: attemptsTo_loop promise_then_def run del: perform_in_order.simps)
  with run show ?thesis by simp
qed

section \<open>The ability registry\<close>

lemma mostGenericTypeOf_Class:
  "mostGenericTypeOf (Class i n p) = (if p = Ability then Class i n p else mostGenericTypeOf p)"
  by (subst mostGenericTypeOf.simps) simp

lemma subtype_of_Ability_cases:
  "subtype_of Ability a \<Longrightarrow> extends_Ability a \<Longrightarrow> a = Ability"
  by auto

lemma mostGenericTypeOf_subtype:
  "subtype_of b a \<Longrightarrow> extends_Ability a \<Longrightarrow> a \<noteq> Ability
     \<Longrightarrow> mostGenericTypeOf b = mostGenericTypeOf a"
proof (induction b)
  case (Class i n p)
  show ?case
  proof (cases "Class i n p = a")
    case True
    then show ?thesis by simp
  next
    case False
    with Class.prems have sub: "subtype_of p a" by simp
    have "p \<noteq> Ability"
      using sub Class.prems(2,3) by auto
    then show ?thesis
      using Class.IH [OF sub Class.prems(2,3)] by (simp add: mostGenericTypeOf_Class)
  qed
qed auto

lemma subtype_of_refl: "subtype_of c c"
  by (cases c) simp_all

lemma mostGenericTypeOf_is_ancestor:
  "extends_Ability c \<Longrightarrow> c \<noteq> Ability \<Longrightarrow> subtype_of c (mostGenericTypeOf c)"
proof (induction c)
  case (Class i n p)
  show ?case
  proof (cases "p = Ability")
    case True
    then show ?thesis by (simp add: mostGenericTypeOf_Class)
  next
    case False
    with Class have "subtype_of p (mostGenericTypeOf p)" by simp
    with False show ?thesis by (simp add: mostGenericTypeOf_Class)
  qed
qed auto

lemma mostGenericTypeOf_is_root:
  "extends_Ability c \<Longrightarrow> c \<noteq> Ability \<Longrightarrow> getPrototypeOf (mostGenericTypeOf c) = Some Ability"
proof (induction c)
  case (Class i n p)
  then show ?case by (cases "p = Ability") (auto simp: mostGenericTypeOf_Class)
qed auto

lemma acquireAbility_ok:
  "extends_Ability (ability_class b) \<Longrightarrow>
     acquireAbility typeOf actor b =
       Inr (actor\<lparr>abilities := AList.update (mostGenericTypeOf (ability_class b)) b (abilities actor)\<rparr>)"
  by (simp add: acquireAbility_def)

lemma single_entry:
  "distinct (map fst al) \<Longrightarrow> k \<in> fst ` set al \<Longrightarrow> length (filter (\<lambda>entry. fst entry = k) al) = 1"
proof (induction al)
  case Nil
  then show ?case by simp
next
  case (Cons p ps)
  show ?case
  proof (cases "fst p = k")
    case True
    from Cons.prems(1) have "fst p \<notin> fst ` set ps" by simp
    with True have "\<forall>entry \<in> set ps. fst entry \<noteq> k" by blast
    then have "filter (\<lambda>entry. fst entry = k) ps = []"
      by (simp add: filter_empty_conv)
    with True show ?thesis by simp
  next
    case False
    with Cons show ?thesis by auto
  qed
qed

lemma whoCan_grants:
  "\<forall>x \<in> set granted. extends_Ability (ability_class x) \<Longrightarrow>
   \<exists>actor'. whoCan typeOf actor granted = Inr actor'
      \<and> name actor' = name actor
      \<and> (distinct (map fst (abilities actor)) \<longrightarrow> distinct (map fst (abilities actor')))
      \<and> fst ` set (abilities actor') =
          fst ` set (abilities actor) \<union> (\<lambda>x. mostGenericTypeOf (ability_class x)) ` set granted
      \<and> (\<forall>k. map_of (abilities actor') k =
            (case filter (\<lambda>y. mostGenericTypeOf (ability_class y) = k) granted of
               [] \<Rightarrow> map_of (abilities actor) k
             | y # ys \<Rightarrow> Some (last (y # ys))))"
proof (induction granted arbitrary: actor)
  case Nil
  then show ?case by simp
next
  case (Cons g rest)
  let ?actor1 = "actor\<lparr>abilities := AList.update (mostGenericTypeOf (ability_class g)) g (abilities actor)\<rparr>"
  have step: "acquireAbility typeOf actor g = Inr ?actor1"
    using Cons.prems by (simp add: acquireAbility_ok)
  from Cons.prems have "\<forall>x \<in> set rest. extends_Ability (ability_class x)" by simp
  from Cons.IH [OF this, of ?actor1] obtain actor' where
    run: "whoCan typeOf ?actor1 rest = Inr actor'"
    and nm: "name actor' = name ?actor1"
    and dist: "distinct (map fst (abilities ?actor1)) \<longrightarrow> distinct (map fst (abilities actor'))"
    and keys: "fst ` set (abilities actor') =
          fst ` set (abilities ?actor1) \<union> (\<lambda>x. mostGenericTypeOf (ability_class x)) ` set rest"
    and look: "\<forall>k. map_of (abilities actor') k =
            (case filter (\<lambda>y. mostGenericTypeOf (ability_class y) = k) rest of
               [] \<Rightarrow> map_of (abilities ?actor1) k
             | y # ys \<Rightarrow> Some (last (y # ys)))"
    by blast
  have "whoCan typeOf actor (g # rest) = Inr actor'"
    by (simp add: step run)
  moreover have "name actor' = name actor"
    using nm by simp
  moreover have "distinct (map fst (abilities actor)) \<longrightarrow> distinct (map fst (abilities actor'))"
    using dist by (simp add: distinct_update)
  moreover have "fst ` set (abilities actor') =
          fst ` set (abilities actor) \<union> (\<lambda>x. mostGenericTypeOf (ability_class x)) ` set (g # rest)"
    using keys by (simp add: dom_update [unfolded dom_map_of_conv_image_fst] insert_commute) 
  moreover have "\<forall>k. map_of (abilities actor') k =
            (case filter (\<lambda>y. mostGenericTypeOf (ability_class y) = k) (g # rest) of
               [] \<Rightarrow> map_of (abilities actor) k
             | y # ys \<Rightarrow> Some (last (y # ys)))"
    using look by (auto simp: update_conv' split: list.splits)
  ultimately show ?case by blast
qed

lemma subtype_extends_Ability:
  "subtype_of b a \<Longrightarrow> extends_Ability a \<Longrightarrow> extends_Ability b"
  by (induction b) auto

lemma covariant_lookup:
  assumes "subtype_of B A" and "extends_Ability A" and "A \<noteq> Ability" and "ability_class b = B"
  shows "\<exists>actor'. acquireAbility typeOf actor b = Inr actor' \<and> abilityTo actor' A = Inr b"
proof -
  have ext: "extends_Ability (ability_class b)"
    using assms subtype_extends_Ability by blast
  have key: "mostGenericTypeOf (ability_class b) = mostGenericTypeOf A"
    using assms mostGenericTypeOf_subtype by blast
  show ?thesis
    by (simp add: acquireAbility_ok [OF ext] abilityTo_def findAbilityTo_def key update_conv')
qed

lemma fixture_keys:
  "mostGenericTypeOf BrowseTheWebWithProtractor = BrowseTheWeb"
  "mostGenericTypeOf BrowseTheWeb = BrowseTheWeb"
  "mostGenericTypeOf CallAnApi = CallAnApi"
  "mostGenericTypeOf ConnectToDatabase = ConnectToDatabase"
  by (simp_all add: BrowseTheWebWithProtractor_def BrowseTheWeb_def CallAnApi_def
      ConnectToDatabase_def mostGenericTypeOf_Class)

text \<open>
  C3. When \<open>B\<close> is a strict subtype of \<open>A\<close> and both descend from the abstract
  Ability, granting an instance of \<open>B\<close> succeeds and resolving \<open>A\<close> afterwards
  returns that instance. And after any sequence of grants to an actor whose map has
  one entry per key, no grant fails, the map still has one entry per key, and for every
  granted ability its key is the ancestor of its own class (or that class) that extends
  Ability directly, the map holds exactly one entry under that key, and the entry is
  the last ability granted under it.
\<close>

theorem covariant_lookup_and_one_entry_per_family:
  "(subtype_of B A \<and> B \<noteq> A \<and> extends_Ability A \<and> A \<noteq> Ability \<and> ability_class b = B
      \<longrightarrow> (\<exists>actor'. acquireAbility typeOf actor b = Inr actor' \<and> abilityTo actor' A = Inr b))
   \<and> (distinct (map fst (abilities actor))
       \<and> (\<forall>x \<in> set granted. extends_Ability (ability_class x) \<and> ability_class x \<noteq> Ability)
      \<longrightarrow> (\<exists>actor'. whoCan typeOf actor granted = Inr actor'
            \<and> distinct (map fst (abilities actor'))
            \<and> (\<forall>x \<in> set granted.
                 subtype_of (ability_class x) (mostGenericTypeOf (ability_class x))
               \<and> getPrototypeOf (mostGenericTypeOf (ability_class x)) = Some Ability
               \<and> length (filter (\<lambda>entry. fst entry = mostGenericTypeOf (ability_class x))
                    (abilities actor')) = 1
               \<and> map_of (abilities actor') (mostGenericTypeOf (ability_class x))
                   = Some (last (filter (\<lambda>y. mostGenericTypeOf (ability_class y)
                                   = mostGenericTypeOf (ability_class x)) granted)))))"
proof (intro conjI impI)
  assume h: "subtype_of B A \<and> B \<noteq> A \<and> extends_Ability A \<and> A \<noteq> Ability \<and> ability_class b = B"
  show "\<exists>actor'. acquireAbility typeOf actor b = Inr actor' \<and> abilityTo actor' A = Inr b"
  proof (rule covariant_lookup)
    show "subtype_of B A" using h by (rule conjunct1)
    show "extends_Ability A" using h by simp
    show "A \<noteq> Ability" using h by simp
    show "ability_class b = B" using h by simp
  qed
next
  assume a: "distinct (map fst (abilities actor))
       \<and> (\<forall>x \<in> set granted. extends_Ability (ability_class x) \<and> ability_class x \<noteq> Ability)"
  then have ext: "\<forall>x \<in> set granted. extends_Ability (ability_class x)" by simp
  from a have d0: "distinct (map fst (abilities actor))" by (rule conjunct1)
  from whoCan_grants [OF ext, of typeOf actor] obtain actor' where
    all: "whoCan typeOf actor granted = Inr actor'
      \<and> name actor' = name actor
      \<and> (distinct (map fst (abilities actor)) \<longrightarrow> distinct (map fst (abilities actor')))
      \<and> fst ` set (abilities actor') =
          fst ` set (abilities actor) \<union> (\<lambda>x. mostGenericTypeOf (ability_class x)) ` set granted
      \<and> (\<forall>k. map_of (abilities actor') k =
            (case filter (\<lambda>y. mostGenericTypeOf (ability_class y) = k) granted of
               [] \<Rightarrow> map_of (abilities actor) k
             | y # ys \<Rightarrow> Some (last (y # ys))))" ..
  note run = all [THEN conjunct1]
  note dist = all [THEN conjunct2, THEN conjunct2, THEN conjunct1, THEN mp, OF d0]
  note keys = all [THEN conjunct2, THEN conjunct2, THEN conjunct2, THEN conjunct1]
  note look = all [THEN conjunct2, THEN conjunct2, THEN conjunct2, THEN conjunct2, THEN spec]
  show "\<exists>actor'. whoCan typeOf actor granted = Inr actor'
            \<and> distinct (map fst (abilities actor'))
            \<and> (\<forall>x \<in> set granted.
                 subtype_of (ability_class x) (mostGenericTypeOf (ability_class x))
               \<and> getPrototypeOf (mostGenericTypeOf (ability_class x)) = Some Ability
               \<and> length (filter (\<lambda>entry. fst entry = mostGenericTypeOf (ability_class x))
                    (abilities actor')) = 1
               \<and> map_of (abilities actor') (mostGenericTypeOf (ability_class x))
                   = Some (last (filter (\<lambda>y. mostGenericTypeOf (ability_class y)
                                   = mostGenericTypeOf (ability_class x)) granted)))"
  proof (intro exI conjI ballI)
    show "whoCan typeOf actor granted = Inr actor'" by (rule run)
    show "distinct (map fst (abilities actor'))" by (rule dist)
  next
    fix x assume x: "x \<in> set granted"
    from a x have "extends_Ability (ability_class x)" "ability_class x \<noteq> Ability" by simp_all
    then show "subtype_of (ability_class x) (mostGenericTypeOf (ability_class x))"
      by (rule mostGenericTypeOf_is_ancestor)
  next
    fix x assume x: "x \<in> set granted"
    from a x have "extends_Ability (ability_class x)" "ability_class x \<noteq> Ability" by simp_all
    then show "getPrototypeOf (mostGenericTypeOf (ability_class x)) = Some Ability"
      by (rule mostGenericTypeOf_is_root)
  next
    fix x assume x: "x \<in> set granted"
    have "mostGenericTypeOf (ability_class x) \<in> fst ` set (abilities actor')"
      unfolding keys using x by simp
    with dist show "length (filter (\<lambda>entry. fst entry = mostGenericTypeOf (ability_class x))
                    (abilities actor')) = 1"
      by (rule single_entry)
  next
    fix x assume x: "x \<in> set granted"
    let ?k = "mostGenericTypeOf (ability_class x)"
    have "x \<in> set (filter (\<lambda>y. mostGenericTypeOf (ability_class y) = ?k) granted)"
      using x by simp
    then obtain y ys where "filter (\<lambda>y. mostGenericTypeOf (ability_class y) = ?k) granted = y # ys"
      by (cases "filter (\<lambda>y. mostGenericTypeOf (ability_class y) = ?k) granted") auto
    then show "map_of (abilities actor') ?k
        = Some (last (filter (\<lambda>y. mostGenericTypeOf (ability_class y) = ?k) granted))"
      using look [of ?k] by simp
  qed
qed

theorem covariant_lookup_and_one_entry_per_family_witness:
  "subtype_of BrowseTheWebWithProtractor BrowseTheWeb
   \<and> BrowseTheWebWithProtractor \<noteq> BrowseTheWeb
   \<and> extends_Ability BrowseTheWeb \<and> BrowseTheWeb \<noteq> Ability
   \<and> (\<exists>actor'. acquireAbility (\<lambda>_. ''object'') Wendy browser = Inr actor'
         \<and> abilityTo actor' BrowseTheWeb = Inr browser)
   \<and> distinct (map fst (abilities Wendy))
   \<and> whoCan (\<lambda>_. ''object'') Wendy [browseTheWeb, callAnApi, browser]
       = Inr (Wendy\<lparr>abilities := [(BrowseTheWeb, browser), (CallAnApi, callAnApi)]\<rparr>)
   \<and> mostGenericTypeOf (ability_class browser) = BrowseTheWeb
   \<and> subtype_of (ability_class browser) BrowseTheWeb
   \<and> getPrototypeOf BrowseTheWeb = Some Ability
   \<and> length (filter (\<lambda>entry. fst entry = BrowseTheWeb)
         [(BrowseTheWeb, browser), (CallAnApi, callAnApi)]) = 1
   \<and> map_of [(BrowseTheWeb, browser), (CallAnApi, callAnApi)] BrowseTheWeb
       = Some (last (filter (\<lambda>y. mostGenericTypeOf (ability_class y) = BrowseTheWeb)
                  [browseTheWeb, callAnApi, browser]))"
proof -
  have hyps: "subtype_of BrowseTheWebWithProtractor BrowseTheWeb
      \<and> BrowseTheWebWithProtractor \<noteq> BrowseTheWeb
      \<and> extends_Ability BrowseTheWeb \<and> BrowseTheWeb \<noteq> Ability
      \<and> ability_class browser = BrowseTheWebWithProtractor"
    by (simp add: BrowseTheWebWithProtractor_def BrowseTheWeb_def browser_def)
  have classes: "ability_class browseTheWeb = BrowseTheWeb" "ability_class callAnApi = CallAnApi"
    "ability_class browser = BrowseTheWebWithProtractor"
    "extends_Ability BrowseTheWeb" "extends_Ability CallAnApi"
    "extends_Ability BrowseTheWebWithProtractor" "BrowseTheWeb \<noteq> CallAnApi"
    "BrowseTheWeb \<noteq> Ability" "CallAnApi \<noteq> Ability" "BrowseTheWebWithProtractor \<noteq> Ability"
    by (simp_all add: browseTheWeb_def callAnApi_def browser_def BrowseTheWebWithProtractor_def
        BrowseTheWeb_def CallAnApi_def)
  have run: "whoCan (\<lambda>_. ''object'') Wendy [browseTheWeb, callAnApi, browser]
       = Inr (Wendy\<lparr>abilities := [(BrowseTheWeb, browser), (CallAnApi, callAnApi)]\<rparr>)"
    by (simp add: acquireAbility_def classes fixture_keys Wendy_def)
  have key: "mostGenericTypeOf (ability_class browser) = BrowseTheWeb"
    by (simp add: classes fixture_keys)
  have hyps2: "distinct (map fst (abilities Wendy))
       \<and> (\<forall>x \<in> set [browseTheWeb, callAnApi, browser].
             extends_Ability (ability_class x) \<and> ability_class x \<noteq> Ability)"
    by (simp add: classes Wendy_def)
  note th = covariant_lookup_and_one_entry_per_family
        [of BrowseTheWebWithProtractor BrowseTheWeb browser "\<lambda>_. ''object''" Wendy
            "[browseTheWeb, callAnApi, browser]"]
  note found = th [THEN conjunct1, THEN mp, OF hyps]
  from th [THEN conjunct2, THEN mp, OF hyps2] obtain actor' where
    granted: "whoCan (\<lambda>_. ''object'') Wendy [browseTheWeb, callAnApi, browser] = Inr actor'
      \<and> distinct (map fst (abilities actor'))
      \<and> (\<forall>x \<in> set [browseTheWeb, callAnApi, browser].
            subtype_of (ability_class x) (mostGenericTypeOf (ability_class x))
          \<and> getPrototypeOf (mostGenericTypeOf (ability_class x)) = Some Ability
          \<and> length (filter (\<lambda>entry. fst entry = mostGenericTypeOf (ability_class x))
               (abilities actor')) = 1
          \<and> map_of (abilities actor') (mostGenericTypeOf (ability_class x))
              = Some (last (filter (\<lambda>y. mostGenericTypeOf (ability_class y)
                              = mostGenericTypeOf (ability_class x))
                        [browseTheWeb, callAnApi, browser])))" ..
  from granted have "Inr actor' = whoCan (\<lambda>_. ''object'') Wendy [browseTheWeb, callAnApi, browser]"
    by simp
  then have actor': "abilities actor' = [(BrowseTheWeb, browser), (CallAnApi, callAnApi)]"
    unfolding run by simp
  have member: "browser \<in> set [browseTheWeb, callAnApi, browser]" by simp
  note for_browser = granted [THEN conjunct2, THEN conjunct2, THEN bspec, OF member]
  from for_browser have sub: "subtype_of (ability_class browser) BrowseTheWeb"
    unfolding key by (rule conjunct1)
  from for_browser have root: "getPrototypeOf BrowseTheWeb = Some Ability"
    unfolding key by (rule conjunct1 [OF conjunct2])
  from for_browser have one: "length (filter (\<lambda>entry. fst entry = BrowseTheWeb)
         [(BrowseTheWeb, browser), (CallAnApi, callAnApi)]) = 1"
    unfolding key actor' by (rule conjunct1 [OF conjunct2 [OF conjunct2]])
  from for_browser have latest: "map_of [(BrowseTheWeb, browser), (CallAnApi, callAnApi)] BrowseTheWeb
       = Some (last (filter (\<lambda>y. mostGenericTypeOf (ability_class y) = BrowseTheWeb)
                  [browseTheWeb, callAnApi, browser]))"
    unfolding key actor' by (rule conjunct2 [OF conjunct2 [OF conjunct2]])
  have d0: "distinct (map fst (abilities Wendy))"
    using hyps2 by (rule conjunct1)
  have first: "subtype_of BrowseTheWebWithProtractor BrowseTheWeb
   \<and> BrowseTheWebWithProtractor \<noteq> BrowseTheWeb
   \<and> extends_Ability BrowseTheWeb \<and> BrowseTheWeb \<noteq> Ability"
    using hyps by simp
  from first found d0 run key sub root one latest show ?thesis
    by (intro conjI) (erule conjunct1 | simp)+
qed

text \<open>
  C4. When the actor holds nothing under the most generic type of \<open>abilityType\<close>,
  \<open>abilityTo\<close> fails with a ConfigurationError. With no ability at all the message
  is the actor's name, "can't", the name of the type and the question; with some
  abilities it first lists the names of the types the actor holds, in the order of
  the map.
\<close>

theorem abilityTo_missing_ability:
  "findAbilityTo actor abilityType = None \<Longrightarrow>
   abilityTo actor abilityType =
     Inl (ErrorObject ConfigurationError
       (if abilities actor = []
        then name actor @ '' can't '' @ interpolated (type_name abilityType)
               @ '' yet. Did you give them the ability to do so?''
        else name actor @ '' can '' @ join '', '' (map (\<lambda>entry. type_name (fst entry)) (abilities actor))
               @ ''. They can't, however, '' @ interpolated (type_name abilityType)
               @ '' yet. Did you give them the ability to do so?'')
       None)"
  by (simp add: abilityTo_def comp_def)

theorem abilityTo_missing_ability_witness:
  "findAbilityTo Wendy CallAnApi = None
   \<and> abilityTo Wendy CallAnApi =
       Inl (ErrorObject ConfigurationError
         ''Wendy can't CallAnApi yet. Did you give them the ability to do so?'' None)
   \<and> prefix ''Wendy can't CallAnApi yet.''
        ''Wendy can't CallAnApi yet. Did you give them the ability to do so?''
   \<and> findAbilityTo Stan (Class 9 ''TakeNotes'' Ability) = None
   \<and> abilityTo Stan (Class 9 ''TakeNotes'' Ability) =
       Inl (ErrorObject ConfigurationError
         ''Stan can ConnectToDatabase, BrowseTheWeb, CallAnApi. They can't, however, TakeNotes yet. Did you give them the ability to do so?'' None)"
proof -
  have none: "findAbilityTo Wendy CallAnApi = None"
    by (simp add: findAbilityTo_def Wendy_def)
  have none': "findAbilityTo Stan (Class 9 ''TakeNotes'' Ability) = None"
    by (simp add: findAbilityTo_def Stan_def mostGenericTypeOf_Class ConnectToDatabase_def
        BrowseTheWeb_def CallAnApi_def)
  show ?thesis
    using none none' abilityTo_missing_ability [OF none] abilityTo_missing_ability [OF none']
    by (simp add: Wendy_def Stan_def CallAnApi_def ConnectToDatabase_def BrowseTheWeb_def)
qed

section \<open>Dismissal\<close>











section \<open>Describing an activity\<close>

lemma getSubstitution_literal:
  "CHR ''$'' \<notin> set r \<Longrightarrow> getSubstitution matched before after r = r"
  by (induction matched before after r rule: getSubstitution.induct) auto

lemma describe_without_dollar:
  "CHR ''$'' \<notin> set (name actor) \<Longrightarrow>
   describe activity actor =
     Name (let template = (if toString activity = ''[object Object]''
                           then ''#actor performs '' @ constructor_name_of activity
                           else toString activity)
           in case split_at_first ''#actor'' template of
                None \<Rightarrow> template
              | Some (before, after) \<Rightarrow> before @ name actor @ after)"
  by (simp add: describe_def includeActorName_def replace_def getSubstitution_literal Let_def
      split: option.splits)

text \<open>
  C9. The placeholder is not always replaced with the actor's name: an actor named
  \<^verbatim>\<open>Big $$ Spender\<close> is described as \<^verbatim>\<open>Big $ Spender\<close>, and for an actor
  named \<^verbatim>\<open>$&\<close> the placeholder stays in the description.
\<close>

theorem describe_rewrites_dollar_patterns:
  "describe checkout Spender = Name ''Big $ Spender performs Checkout''
   \<and> describe selectJava (Wendy\<lparr>name := ''$&''\<rparr>)
       = Name ''#actor ensures that the Java option does become selected''"
  by (simp add: describe_def includeActorName_def replace_def checkout_def selectJava_def
      Spender_def Wendy_def)

section \<open>Answering\<close>

text \<open>
  C7, as the code has it. \<open>answer\<close> tests in this order: a defined value that has
  \<^verbatim>\<open>then\<close> as a property of its own is returned as it is; otherwise a value that
  exposes \<open>answeredBy\<close> is answered by calling it with the actor and answering what it
  returns; any other value goes to \<^verbatim>\<open>Promise.resolve\<close>, which returns a promise
  of the host language as it is and resolves every other value.
\<close>

theorem answer_dispatch_order:
  "(isDefined v \<and> isAPromise v \<longrightarrow> answer this v = Returned v)
   \<and> (\<not> ownThen \<longrightarrow> answer this (Question ownThen native q) = answer this (q this))
   \<and> (\<not> (isDefined v \<and> isAPromise v) \<and> \<not> (isDefined v \<and> isAQuestion v)
        \<longrightarrow> answer this v = Promise_resolve v)
   \<and> (\<not> isAPromise v \<and> \<not> isAQuestion v \<and> isNativePromise v \<longrightarrow> answer this v = Returned v)
   \<and> (\<not> isAPromise v \<and> \<not> isAQuestion v \<and> \<not> isNativePromise v \<longrightarrow> answer this v = Resolved v)"
  by (cases v) (simp_all add: Promise_resolve_def)

theorem answer_dispatch_order_witness:
  "answer Wendy (Question True False (\<lambda>actor. Plain False False (name actor)))
     = Returned (Question True False (\<lambda>actor. Plain False False (name actor)))
   \<and> answer Wendy (Question False False (\<lambda>actor. Question False False (\<lambda>actor'. Plain False False (name actor'))))
     = Resolved (Plain False False ''Wendy'')
   \<and> answer Wendy (Plain False True ''pending'') = Returned (Plain False True ''pending'')
   \<and> answer Wendy (Undefined :: (string list, string) answerable) = Resolved Undefined"
proof -
  let ?q = "Question True False (\<lambda>actor. Plain False False (name actor)) :: (string list, string) answerable"
  let ?inner = "\<lambda>actor :: string list actor. Question False False (\<lambda>actor'. Plain False False (name actor')) :: (string list, string) answerable"
  have a: "answer Wendy ?q = Returned ?q"
    using answer_dispatch_order [of ?q Wendy] by simp
  have b1: "answer Wendy (Question False False ?inner) = answer Wendy (?inner Wendy)"
    using answer_dispatch_order [of Undefined Wendy False False ?inner] by simp
  have b2: "answer Wendy (?inner Wendy) = answer Wendy (Plain False False (name Wendy))"
    using answer_dispatch_order [of Undefined Wendy False False "\<lambda>actor'. Plain False False (name actor')"] by simp
  have b3: "answer Wendy (Plain False False (name Wendy) :: (string list, string) answerable)
      = Resolved (Plain False False ''Wendy'')"
    using answer_dispatch_order [of "Plain False False (name Wendy) :: (string list, string) answerable" Wendy]
    by (simp add: Promise_resolve_def Wendy_def)
  have c: "answer Wendy (Plain False True ''pending'' :: (string list, string) answerable)
      = Returned (Plain False True ''pending'')"
    using answer_dispatch_order [of "Plain False True ''pending'' :: (string list, string) answerable" Wendy]
    by (simp add: Promise_resolve_def)
  have d: "answer Wendy (Undefined :: (string list, string) answerable) = Resolved Undefined"
    using answer_dispatch_order [of "Undefined :: (string list, string) answerable" Wendy]
    by (simp add: Promise_resolve_def)
  from a b1 b2 b3 c d show ?thesis by simp
qed

text \<open>
  C7, as stated, fails: a promise of the host language inherits \<^verbatim>\<open>then\<close>, so the
  first test does not hold of it; when it also exposes \<open>answeredBy\<close> it is answered as
  a Question and not returned as it is.
\<close>

theorem answer_promise_with_answeredBy_counterexample:
  "isDefined (Question False True (\<lambda>actor :: string list actor. Plain False False (name actor)))
   \<and> isNativePromise (Question False True (\<lambda>actor :: string list actor. Plain False False (name actor)))
   \<and> answer Wendy (Question False True (\<lambda>actor. Plain False False (name actor)))
       = Resolved (Plain False False ''Wendy'')
   \<and> answer Wendy (Question False True (\<lambda>actor. Plain False False (name actor)))
       \<noteq> Returned (Question False True (\<lambda>actor. Plain False False (name actor)))"
  by (simp add: Promise_resolve_def Wendy_def)

end
